theory Spec2Isabelle
  imports Main "HOL-Library.Word"
begin

section \<open>config.go: records, defaults, normalisation, saving\<close>

text \<open>
  Go strings are byte strings and are modelled as \<open>string\<close>; Go \<open>int\<close> fields hold
  port numbers that are only compared with zero and copied, so they are \<open>int\<close>.
  The struct \<open>RemoteRecord\<close> and the struct \<open>Config\<close> share field names, as in the
  source; the fields of \<open>RemoteRecord\<close> are written qualified where both are in scope.
\<close>

record RemoteRecord =
  ID :: string
  Name :: string
  SSHHost :: string
  SSHPort :: int
  SSHUser :: string
  SSHKeyPath :: string
  ProxyPort :: int
  RemotePort :: int
  HTTPProxy :: string
  HTTPSProxy :: string
  LogLevel :: string

record Config =
  Records :: "RemoteRecord list"
  ActiveID :: string
  RecordName :: string
  SSHHost :: string
  SSHPort :: int
  SSHUser :: string
  SSHPassword :: string
  SSHKeyPath :: string
  SSHKeyPassphrase :: string
  ProxyPort :: int
  RemotePort :: int
  HTTPProxy :: string
  HTTPSProxy :: string
  LogLevel :: string

subsection \<open>newRecordID\<close>

text \<open>
  \<open>newRecordID\<close> fills eight bytes from \<open>crypto/rand\<close> and hex-encodes them; when
  \<open>rand.Read\<close> fails it prints the clock's nanoseconds with \<open>%d\<close>. The outcome of
  one call of the random source (and of the clock in the fallback) is a value of
  \<open>rand_result\<close>; the n-th call of a run reads \<open>rng n\<close>.
\<close>

datatype rand_result = RandOk "nat \<Rightarrow> 8 word" | RandErr int

type_synonym rng = "nat \<Rightarrow> rand_result"

definition hexdigit :: "nat \<Rightarrow> char" where
  "hexdigit d = ''0123456789abcdef'' ! (d mod 16)"

definition hex_EncodeToString :: "8 word list \<Rightarrow> string" where
  "hex_EncodeToString bs =
     concat (map (\<lambda>b. [hexdigit (unat b div 16), hexdigit (unat b mod 16)]) bs)"

fun dec_digits :: "nat \<Rightarrow> string" where
  "dec_digits n =
     (if n < 10 then [''0123456789'' ! n]
      else dec_digits (n div 10) @ [''0123456789'' ! (n mod 10)])"

definition fmt_d :: "int \<Rightarrow> string" where
  "fmt_d i = (if i < 0 then CHR ''-'' # dec_digits (nat (- i)) else dec_digits (nat i))"

definition newRecordID :: "rand_result \<Rightarrow> string" where
  "newRecordID e =
     (case e of
        RandOk bytes \<Rightarrow> hex_EncodeToString (map bytes [0..<8])
      | RandErr nanos \<Rightarrow> fmt_d nanos)"

subsection \<open>Defaults and the active record\<close>

definition applyDefaultsToRecord :: "RemoteRecord \<Rightarrow> RemoteRecord" where
  "applyDefaultsToRecord record =
     (let r1 = (if RemoteRecord.SSHPort record = 0
                then record\<lparr>RemoteRecord.SSHPort := 22\<rparr> else record);
          r2 = (if RemoteRecord.ProxyPort r1 = 0
                then r1\<lparr>RemoteRecord.ProxyPort := 8080\<rparr> else r1);
          r3 = (if RemoteRecord.RemotePort r2 = 0
                then r2\<lparr>RemoteRecord.RemotePort := 8080\<rparr> else r2)
      in r3)"

fun find_from :: "int \<Rightarrow> RemoteRecord list \<Rightarrow> string \<Rightarrow> int" where
  "find_from i [] ident = - 1"
| "find_from i (r # rs) ident = (if ID r = ident then i else find_from (i + 1) rs ident)"

definition findRecordIndex :: "Config \<Rightarrow> string \<Rightarrow> int" where
  "findRecordIndex c ident = find_from 0 (Records c) ident"

definition getActiveRecord :: "Config \<Rightarrow> RemoteRecord option" where
  "getActiveRecord c =
     (if ActiveID c = '''' then None
      else find (\<lambda>r. ID r = ActiveID c) (Records c))"

definition syncLegacyFromActive :: "Config \<Rightarrow> Config" where
  "syncLegacyFromActive c =
     (case getActiveRecord c of
        None \<Rightarrow> c
      | Some record \<Rightarrow>
          c\<lparr>RecordName := Name record,
            SSHHost := RemoteRecord.SSHHost record,
            SSHPort := RemoteRecord.SSHPort record,
            SSHUser := RemoteRecord.SSHUser record,
            SSHKeyPath := RemoteRecord.SSHKeyPath record,
            ProxyPort := RemoteRecord.ProxyPort record,
            RemotePort := RemoteRecord.RemotePort record,
            HTTPProxy := RemoteRecord.HTTPProxy record,
            HTTPSProxy := RemoteRecord.HTTPSProxy record,
            LogLevel := (if RemoteRecord.LogLevel record = '''' then ''INFO''
                         else RemoteRecord.LogLevel record)\<rparr>)"

subsection \<open>normalize\<close>

text \<open>
  The loop of \<open>normalize\<close> over \<open>c.Records\<close> applies the defaults to each record in
  place and gives a fresh identifier to a record that has none. The counter of calls of
  \<open>newRecordID\<close> is passed along and returned.
\<close>

fun normalize_records :: "rng \<Rightarrow> nat \<Rightarrow> RemoteRecord list \<Rightarrow> RemoteRecord list \<times> nat" where
  "normalize_records rng n [] = ([], n)"
| "normalize_records rng n (r # rs) =
     (let r1 = applyDefaultsToRecord r;
          (r2, n1) = (if ID r1 = '''' then (r1\<lparr>ID := newRecordID (rng n)\<rparr>, Suc n)
                      else (r1, n));
          (rs', n2) = normalize_records rng n1 rs
      in (r2 # rs', n2))"

definition record_from_legacy :: "string \<Rightarrow> Config \<Rightarrow> RemoteRecord" where
  "record_from_legacy ident c =
     \<lparr>ID = ident, Name = RecordName c, SSHHost = SSHHost c, SSHPort = SSHPort c,
      SSHUser = SSHUser c, SSHKeyPath = SSHKeyPath c, ProxyPort = ProxyPort c,
      RemotePort = RemotePort c, HTTPProxy = HTTPProxy c, HTTPSProxy = HTTPSProxy c,
      LogLevel = ''''\<rparr>"

definition normalize :: "rng \<Rightarrow> nat \<Rightarrow> Config \<Rightarrow> Config \<times> nat" where
  "normalize rng n c =
     (let (c1, n1) =
            (if length (Records c) = 0
             then (c\<lparr>Records :=
                       [applyDefaultsToRecord (record_from_legacy (newRecordID (rng n)) c)]\<rparr>,
                   Suc n)
             else (c, n));
          (rs, n2) = normalize_records rng n1 (Records c1);
          c2 = c1\<lparr>Records := rs\<rparr>;
          c3 = (if ActiveID c2 = '''' \<and> length (Records c2) > 0
                then c2\<lparr>ActiveID := ID (hd (Records c2))\<rparr> else c2);
          c4 = (if ActiveID c3 \<noteq> '''' \<and> findRecordIndex c3 (ActiveID c3) = - 1
                    \<and> length (Records c3) > 0
                then c3\<lparr>ActiveID := ID (hd (Records c3))\<rparr> else c3)
      in (c4, n2))"

subsection \<open>DefaultConfig, loading, saving\<close>

definition zero_Config :: Config where
  "zero_Config =
     \<lparr>Records = [], ActiveID = '''', RecordName = '''', SSHHost = '''', SSHPort = 0,
      SSHUser = '''', SSHPassword = '''', SSHKeyPath = '''', SSHKeyPassphrase = '''',
      ProxyPort = 0, RemotePort = 0, HTTPProxy = '''', HTTPSProxy = '''', LogLevel = ''''\<rparr>"

definition DefaultConfig :: "rand_result \<Rightarrow> Config" where
  "DefaultConfig e =
     (let record = \<lparr>ID = newRecordID e, Name = '''', SSHHost = '''', SSHPort = 22,
                    SSHUser = '''', SSHKeyPath = '''', ProxyPort = 8080, RemotePort = 8080,
                    HTTPProxy = '''', HTTPSProxy = '''', LogLevel = ''''\<rparr>;
          config = zero_Config\<lparr>Records := [record], ActiveID := ID record\<rparr>
      in syncLegacyFromActive config)"

text \<open>
  \<open>LoadOrCreateConfig\<close> after a successful \<open>json.Unmarshal\<close>: the decoded value is
  normalised. The decoder is not part of the repository; its result is the argument.
\<close>

definition load_decoded :: "rng \<Rightarrow> nat \<Rightarrow> Config \<Rightarrow> Config \<times> nat" where
  "load_decoded rng n decoded = normalize rng n decoded"

text \<open>
  \<open>Config.Save\<close>: the receiver is normalised and synchronised in place, then a copy with
  the password, the key passphrase and the record name cleared is marshalled and handed
  to \<open>os.WriteFile\<close>. \<open>marshal\<close> stands for \<open>json.MarshalIndent\<close>. The result holds the
  bytes handed to \<open>os.WriteFile\<close>, the receiver after the call and the counter.
\<close>

definition configToSave :: "Config \<Rightarrow> Config" where
  "configToSave c = c\<lparr>SSHPassword := '''', SSHKeyPassphrase := '''', RecordName := ''''\<rparr>"

definition Save :: "(Config \<Rightarrow> 'b) \<Rightarrow> rng \<Rightarrow> nat \<Rightarrow> Config \<Rightarrow> 'b \<times> Config \<times> nat" where
  "Save marshal rng n c =
     (let (c1, n1) = normalize rng n c;
          c2 = syncLegacyFromActive c1
      in (marshal (configToSave c2), c2, n1))"

definition Save_written :: "(Config \<Rightarrow> 'b) \<Rightarrow> rng \<Rightarrow> nat \<Rightarrow> Config \<Rightarrow> 'b" where
  "Save_written marshal rng n c = fst (Save marshal rng n c)"

subsection \<open>app.go: GetConfig and the defaults of Start and SaveConfig\<close>

definition GetConfig :: "Config \<Rightarrow> Config" where
  "GetConfig a_config =
     syncLegacyFromActive (a_config\<lparr>SSHPassword := '''', SSHKeyPassphrase := ''''\<rparr>)"

text \<open>The three tests at the head of \<open>App.Start\<close> and of \<open>App.SaveConfig\<close>.\<close>

definition start_defaults :: "Config \<Rightarrow> Config" where
  "start_defaults config =
     (let c1 = (if SSHPort config = 0 then config\<lparr>SSHPort := 22\<rparr> else config);
          c2 = (if ProxyPort c1 = 0 then c1\<lparr>ProxyPort := 8080\<rparr> else c1);
          c3 = (if RemotePort c2 = 0 then c2\<lparr>RemotePort := 8080\<rparr> else c2)
      in c3)"

subsection \<open>Observers used in the statements about ports\<close>

text \<open>
  The spec's rule for a port: the default where the field is zero, the field's own value
  otherwise.
\<close>

definition spec_default :: "int \<Rightarrow> int \<Rightarrow> int" where
  "spec_default d p = (if p = 0 then d else p)"

definition default_ports :: "int \<times> int \<times> int \<Rightarrow> int \<times> int \<times> int" where
  "default_ports t =
     (spec_default 22 (fst t), spec_default 8080 (fst (snd t)), spec_default 8080 (snd (snd t)))"

definition ports :: "RemoteRecord \<Rightarrow> int \<times> int \<times> int" where
  "ports r = (RemoteRecord.SSHPort r, RemoteRecord.ProxyPort r, RemoteRecord.RemotePort r)"

definition legacy_ports :: "Config \<Rightarrow> int \<times> int \<times> int" where
  "legacy_ports c = (SSHPort c, ProxyPort c, RemotePort c)"

text \<open>The record list that \<open>normalize\<close> leaves in the configuration.\<close>

definition normalized_records :: "rng \<Rightarrow> nat \<Rightarrow> Config \<Rightarrow> RemoteRecord list" where
  "normalized_records rng n c =
     (if Records c = []
      then fst (normalize_records rng (Suc n)
                  [applyDefaultsToRecord (record_from_legacy (newRecordID (rng n)) c)])
      else fst (normalize_records rng n (Records c)))"

section \<open>proxy.go: the forward proxy\<close>

subsection \<open>contains and stringContains\<close>

text \<open>
  Go's \<open>s[i:j]\<close> on a string, for \<open>0 \<le> i \<le> j \<le> len(s)\<close>; every use below is guarded
  so that the indices are in range (out of range Go panics).
\<close>

definition slice :: "string \<Rightarrow> nat \<Rightarrow> nat \<Rightarrow> string" where
  "slice s i j = take (j - i) (drop i s)"

text \<open>
  The loop of \<open>stringContains\<close>: \<open>i\<close> runs from the given start while
  \<open>i <= len(s) - len(substr)\<close>, a comparison of Go ints (the difference may be negative).
\<close>

function stringContains_loop :: "nat \<Rightarrow> string \<Rightarrow> string \<Rightarrow> bool" where
  "stringContains_loop i s substr =
     (if int i \<le> int (length s) - int (length substr)
      then (if slice s i (i + length substr) = substr then True
            else stringContains_loop (i + 1) s substr)
      else False)"
  by pat_completeness auto
termination
  by (relation "measure (\<lambda>(i, s, substr). Suc (length s) - i)") auto

declare stringContains_loop.simps [simp del]

definition stringContains :: "string \<Rightarrow> string \<Rightarrow> bool" where
  "stringContains s substr = stringContains_loop 0 s substr"

definition contains :: "string \<Rightarrow> string \<Rightarrow> bool" where
  "contains s substr =
     (length s \<ge> length substr \<and>
      (slice s 0 (length substr) = substr
       \<or> (length s > length substr \<and> slice s 1 (length substr + 1) = substr)
       \<or> stringContains s substr))"

subsection \<open>dialThroughProxy\<close>

definition CRLF :: string where
  "CRLF = [CHR 0x0D, CHR 0x0A]"

text \<open>
  Errors are Go \<open>error\<close> values; the model keeps their message, which is what
  \<open>fmt.Errorf\<close> builds and what \<open>%v\<close> and \<open>%w\<close> print. The URL parser, the dialer
  and the connection to the upstream proxy are outside the repository: their results at
  this call are the fields of \<open>proxy_io\<close>.
\<close>

record URL =
  Host :: string
  Port :: string
  Hostname :: string

record proxy_io =
  url_Parse :: "string + URL"
  proxy_dial :: "string option"
  proxy_write :: "string option"
  proxy_read :: "string + string"

text \<open>
  The connection to the upstream proxy as the function leaves it: the address dialled,
  the bytes written to it and whether \<open>Close\<close> was called on it.
\<close>

record proxy_conn =
  dialled :: string
  sent :: string
  conn_closed :: bool

definition JoinHostPort :: "string \<Rightarrow> string \<Rightarrow> string" where
  "JoinHostPort h p = (if CHR '':'' \<in> set h then ''['' @ h @ '']:'' @ p else h @ '':'' @ p)"

definition dialThroughProxy ::
  "proxy_io \<Rightarrow> string \<Rightarrow> string \<Rightarrow> (string + proxy_conn) \<times> proxy_conn option" where
  "dialThroughProxy io proxyURL targetHost =
     (case url_Parse io of
        Inl e \<Rightarrow> (Inl (''invalid proxy URL: '' @ e), None)
      | Inr parsedURL \<Rightarrow>
          let proxyAddr = (if Port parsedURL = '''' then JoinHostPort (Hostname parsedURL) ''80''
                           else Host parsedURL)
          in (case proxy_dial io of
                Some e \<Rightarrow>
                  (Inl (''failed to connect to proxy '' @ proxyAddr @ '': '' @ e), None)
              | None \<Rightarrow>
                  let connectReq = ''CONNECT '' @ targetHost @ '' HTTP/1.1'' @ CRLF
                                   @ ''Host: '' @ targetHost @ CRLF @ CRLF;
                      conn = \<lparr>dialled = proxyAddr, sent = connectReq, conn_closed = False\<rparr>
                  in (case proxy_write io of
                        Some e \<Rightarrow>
                          (Inl (''failed to send CONNECT to proxy: '' @ e),
                           Some (conn\<lparr>conn_closed := True\<rparr>))
                      | None \<Rightarrow>
                          (case proxy_read io of
                             Inl e \<Rightarrow>
                               (Inl (''failed to read proxy response: '' @ e),
                                Some (conn\<lparr>conn_closed := True\<rparr>))
                           | Inr received \<Rightarrow>
                               let responseStr = take 4096 received;
                                   n = length responseStr
                               in if \<not> contains responseStr ''200''
                                     \<and> \<not> contains responseStr ''201''
                                  then (Inl (''proxy rejected connection: ''
                                             @ slice responseStr 0 (min 200 n)),
                                        Some (conn\<lparr>conn_closed := True\<rparr>))
                                  else (Inr conn, Some conn)))))"

text \<open>
  The status line of an HTTP response, in the spec's sense: the bytes before the first
  line end. Used only to state what the spec says about the upstream's answer.
\<close>

definition spec_status_line :: "string \<Rightarrow> string" where
  "spec_status_line r = takeWhile (\<lambda>c. c \<noteq> CHR 0x0D \<and> c \<noteq> CHR 0x0A) r"

definition is_substring :: "string \<Rightarrow> string \<Rightarrow> bool" where
  "is_substring sub s = (\<exists>pre post. s = pre @ sub @ post)"

text \<open>
  The status code of a response in the spec's sense: the second field of the status
  line; a 2xx status is a three-digit code that starts with 2.
\<close>

definition spec_status_code :: "string \<Rightarrow> string" where
  "spec_status_code r =
     takeWhile (\<lambda>c. c \<noteq> CHR '' '') (drop 1 (dropWhile (\<lambda>c. c \<noteq> CHR '' '') (spec_status_line r)))"

definition is_digit :: "char \<Rightarrow> bool" where
  "is_digit c = (c \<in> set ''0123456789'')"

definition spec_is_2xx :: "string \<Rightarrow> bool" where
  "spec_is_2xx r =
     (case spec_status_code r of
        [a, b, c] \<Rightarrow> a = CHR ''2'' \<and> is_digit b \<and> is_digit c
      | _ \<Rightarrow> False)"

text \<open>Two answers an upstream proxy can give, and an upstream that gives a chosen answer.\<close>

definition resp_403_length_200 :: string where
  "resp_403_length_200 =
     ''HTTP/1.1 403 Forbidden'' @ CRLF @ ''Content-Length: 200'' @ CRLF @ CRLF"

definition resp_204 :: string where
  "resp_204 = ''HTTP/1.1 204 No Content'' @ CRLF @ CRLF"

definition upstream_answers :: "string \<Rightarrow> proxy_io" where
  "upstream_answers r =
     \<lparr>url_Parse = Inr \<lparr>Host = ''10.0.0.1:3128'', Port = ''3128'', Hostname = ''10.0.0.1''\<rparr>,
      proxy_dial = None, proxy_write = None, proxy_read = Inr r\<rparr>"

subsection \<open>The relay of a connection pair\<close>

text \<open>
  \<open>handleConnect\<close> and \<open>handleRemoteConnection\<close> each start two goroutines, one per
  direction, and wait for both (\<open>wg.Wait()\<close>). A goroutine body is a list of
  instructions: \<open>Copy dst src\<close> is \<open>io.Copy(dst, src)\<close>, \<open>CloseWrite c\<close> is
  \<open>c.(*net.TCPConn).CloseWrite()\<close>. \<open>ClientSide\<close> is \<open>clientConn\<close> (for the tunnel:
  \<open>remoteConn\<close>), \<open>TargetSide\<close> is \<open>targetConn\<close> (for the tunnel: \<open>localConn\<close>).
\<close>

datatype side = ClientSide | TargetSide

datatype instr = Copy side side | CloseWrite side

text \<open>
  The state of the two connections. \<open>pending c\<close> are bytes the peer of \<open>c\<close> has sent
  and the relay has not read yet; \<open>peer_finished c\<close> says that the peer has closed its
  sending direction, so that a read on \<open>c\<close> reaches end-of-stream; \<open>peer_waits c\<close> says
  that the peer closes its sending direction once it sees end-of-stream itself, that is,
  once the relay has closed the write side of \<open>c\<close> or \<open>c\<close> altogether.
\<close>

record pair_state =
  pending :: "side \<Rightarrow> string"
  peer_finished :: "side \<Rightarrow> bool"
  peer_waits :: "side \<Rightarrow> bool"
  delivered :: "side \<Rightarrow> string"
  write_closed :: "side \<Rightarrow> bool"
  closed :: "side \<Rightarrow> bool"

text \<open>
  One scheduling step of a goroutine: \<open>io.Copy\<close> moves what is there and returns when
  the source is at end-of-stream (or closed); until then the goroutine stays at the copy.
\<close>

fun step_task :: "pair_state \<Rightarrow> instr list \<Rightarrow> pair_state \<times> instr list" where
  "step_task st [] = (st, [])"
| "step_task st (Copy dst src # rest) =
     (let st1 = st\<lparr>delivered := (delivered st)(dst := delivered st dst @ pending st src),
                   pending := (pending st)(src := [])\<rparr>
      in if peer_finished st src \<or> closed st src then (st1, rest)
         else (st1, Copy dst src # rest))"
| "step_task st (CloseWrite c # rest) =
     (st\<lparr>write_closed := (write_closed st)(c := True)\<rparr>, rest)"

definition peers_react :: "pair_state \<Rightarrow> pair_state" where
  "peers_react st =
     st\<lparr>peer_finished :=
          (\<lambda>c. peer_finished st c \<or> (peer_waits st c \<and> (write_closed st c \<or> closed st c)))\<rparr>"

text \<open>
  \<open>n\<close> rounds of the two goroutines and the peers; in a round each goroutine makes
  one step and then the peers react. The flags only ever go from false to true.
\<close>

fun run_pair ::
  "nat \<Rightarrow> pair_state \<Rightarrow> instr list \<Rightarrow> instr list \<Rightarrow> pair_state \<times> instr list \<times> instr list" where
  "run_pair 0 st t1 t2 = (st, t1, t2)"
| "run_pair (Suc n) st t1 t2 =
     (let (st1, t1') = step_task st t1;
          (st2, t2') = step_task st1 t2
      in run_pair n (peers_react st2) t1' t2')"

text \<open>The goroutine bodies of the two relays, as the source has them.\<close>

definition handleConnect_tasks :: "instr list \<times> instr list" where
  "handleConnect_tasks =
     ([Copy TargetSide ClientSide, CloseWrite TargetSide],
      [Copy ClientSide TargetSide, CloseWrite ClientSide])"

definition handleRemoteConnection_tasks :: "instr list \<times> instr list" where
  "handleRemoteConnection_tasks =
     ([Copy TargetSide ClientSide],
      [Copy ClientSide TargetSide])"

text \<open>
  \<open>wg.Wait()\<close> returns when both goroutines have run to their end; the function then
  returns and its deferred \<open>Close\<close> calls close both connections. The result says
  whether the relay has returned within \<open>n\<close> rounds, with the state of the connections.
\<close>

definition relay :: "nat \<Rightarrow> instr list \<times> instr list \<Rightarrow> pair_state \<Rightarrow> bool \<times> pair_state" where
  "relay n tasks st =
     (let (st', t1, t2) = run_pair n st (fst tasks) (snd tasks)
      in if t1 = [] \<and> t2 = [] then (True, st'\<lparr>closed := (\<lambda>c. True)\<rparr>) else (False, st'))"

text \<open>
  Half-close as a property of a goroutine body: every copy is directly followed by
  \<open>CloseWrite\<close> on the copy's destination.
\<close>

fun half_closes :: "instr list \<Rightarrow> bool" where
  "half_closes [] = True"
| "half_closes (Copy dst src # CloseWrite c # rest) = (c = dst \<and> half_closes rest)"
| "half_closes (Copy dst src # rest) = False"
| "half_closes (CloseWrite c # rest) = half_closes rest"

text \<open>
  A pair whose client-side peer has sent \<open>d\<close> and finished sending, and whose
  target-side peer answers nothing and finishes only once it sees end-of-stream.
\<close>

definition client_done_pair :: "string \<Rightarrow> pair_state" where
  "client_done_pair d =
     \<lparr>pending = (\<lambda>c. if c = ClientSide then d else []),
      peer_finished = (\<lambda>c. c = ClientSide),
      peer_waits = (\<lambda>c. c = TargetSide),
      delivered = (\<lambda>c. []),
      write_closed = (\<lambda>c. False),
      closed = (\<lambda>c. False)\<rparr>"

subsection \<open>The server, a request and what a handler leaves behind\<close>

text \<open>
  \<open>serving\<close> stands for the \<open>http.Server\<close> that \<open>Start\<close> stores in \<open>p.server\<close> and
  \<open>Stop\<close> closes. A header is Go's \<open>map[string][]string\<close>; the header of an inbound
  request is listed in the order in which \<open>range\<close> visits it.
\<close>

record ProxyServer =
  port :: int
  httpProxy :: string
  httpsProxy :: string
  serving :: bool

type_synonym header = "string \<rightharpoonup> string list"

record Request =
  Method :: string
  Host :: string
  URL_String :: string
  Header :: "(string \<times> string list) list"
  Body :: string

text \<open>An outbound request as \<open>handleHTTP\<close> hands it to the HTTP client.\<close>

record OutRequest =
  out_Method :: string
  out_URL :: string
  out_Header :: header
  out_Body :: string
  via_proxy :: "string option"

text \<open>
  What a handler has done when it is over: the status and body it wrote through the
  \<open>ResponseWriter\<close> (\<open>http.Error\<close> writes the message and a newline), the response
  header it set with \<open>w.Header().Add\<close> (the content type that \<open>http.Error\<close> sets by
  itself is not listed), whether it took over the client connection and what it wrote to
  it raw, the state of the relayed pair if the relay ran, the requests it sent out, its
  log lines, and whether it has returned.
\<close>

record outcome =
  status :: "nat option"
  body :: string
  response_header :: header
  hijacked :: bool
  raw_to_client :: string
  relayed :: "pair_state option"
  sent_out :: "OutRequest list"
  logs :: "(string \<times> string) list"
  returned :: bool

definition no_outcome :: outcome where
  "no_outcome =
     \<lparr>status = None, body = [], response_header = Map.empty, hijacked = False,
      raw_to_client = [], relayed = None, sent_out = [], logs = [], returned = True\<rparr>"

definition LevelError :: string where "LevelError = ''ERROR''"
definition LevelInfo :: string where "LevelInfo = ''INFO''"
definition LevelDebug :: string where "LevelDebug = ''DEBUG''"

definition http_Error :: "string \<Rightarrow> nat \<Rightarrow> outcome \<Rightarrow> outcome" where
  "http_Error msg code out = out\<lparr>status := Some code, body := body out @ msg @ [CHR 0x0A]\<rparr>"

definition log_line :: "string \<Rightarrow> string \<Rightarrow> outcome \<Rightarrow> outcome" where
  "log_line level msg out = out\<lparr>logs := logs out @ [(level, msg)]\<rparr>"

subsection \<open>handleConnect\<close>

text \<open>
  The environment of one CONNECT request: the result of the direct dial, the upstream
  proxy's side of \<open>dialThroughProxy\<close>, whether the \<open>ResponseWriter\<close> is a \<open>Hijacker\<close>,
  the result of \<open>Hijack\<close> and of the write of the status line, the two connections as
  the relay finds them, and the number of scheduling rounds looked at.
\<close>

record connect_env =
  direct_dial :: "string option"
  upstream :: proxy_io
  hijacker_ok :: bool
  hijack_err :: "string option"
  established_write_err :: "string option"
  pair :: pair_state
  rounds :: nat

text \<open>The bytes of the two log prefixes that the source writes in Chinese (UTF-8).\<close>

definition received_https_prefix :: string where
  "received_https_prefix =
     ''>> '' @ [CHR 0xE6, CHR 0x94, CHR 0xB6, CHR 0xE5, CHR 0x88, CHR 0xB0] @ '' HTTPS ''
     @ [CHR 0xE8, CHR 0xAF, CHR 0xB7, CHR 0xE6, CHR 0xB1, CHR 0x82] @ '': ''"


text \<open>The dial of the target: through the HTTPS upstream proxy when one is set.\<close>

definition dial_target :: "ProxyServer \<Rightarrow> connect_env \<Rightarrow> string \<Rightarrow> string option" where
  "dial_target p env host =
     (if httpsProxy p \<noteq> ''''
      then (case fst (dialThroughProxy (upstream env) (httpsProxy p) host) of
              Inl e \<Rightarrow> Some e
            | Inr conn \<Rightarrow> None)
      else direct_dial env)"

definition handleConnect :: "ProxyServer \<Rightarrow> connect_env \<Rightarrow> Request \<Rightarrow> outcome \<times> ProxyServer" where
  "handleConnect p env r =
     (let out0 = log_line LevelDebug (received_https_prefix @ Host r) no_outcome
      in case dial_target p env (Host r) of
           Some err \<Rightarrow>
             (log_line LevelError (''Failed to connect to '' @ Host r @ '': '' @ err)
                (http_Error (''Failed to connect to '' @ Host r @ '': '' @ err) 502 out0),
              p)
         | None \<Rightarrow>
             if \<not> hijacker_ok env
             then (http_Error ''Hijacking not supported'' 500 out0, p)
             else (case hijack_err env of
                     Some err \<Rightarrow> (http_Error (''Hijack failed: '' @ err) 500 out0, p)
                   | None \<Rightarrow>
                       let out1 = out0\<lparr>hijacked := True\<rparr>
                       in (case established_write_err env of
                             Some err \<Rightarrow>
                               (log_line LevelError
                                  (''Failed to send connection established: '' @ err) out1,
                                p)
                           | None \<Rightarrow>
                               let out2 = out1\<lparr>raw_to_client :=
                                            ''HTTP/1.1 200 Connection Established'' @ CRLF @ CRLF\<rparr>;
                                   (done, st) = relay (rounds env) handleConnect_tasks (pair env)
                               in if done
                                  then (log_line LevelDebug (''CONNECT '' @ Host r @ '' completed'')
                                          (out2\<lparr>relayed := Some st\<rparr>),
                                        p)
                                  else (out2\<lparr>relayed := Some st, returned := False\<rparr>, p))))"

subsection \<open>handleHTTP\<close>















subsection \<open>handleRequest and the serving loop\<close>






subsection \<open>Concrete requests used to instantiate the statements\<close>





definition connect_request :: Request where
  "connect_request =
     \<lparr>Method = ''CONNECT'', Host = ''unreachable.example:443'',
      URL_String = ''//unreachable.example:443'', Header = [], Body = ''''\<rparr>"


section \<open>ssh_tunnel.go: the tunnel manager\<close>

subsection \<open>The tunnel and Stop\<close>

text \<open>
  \<open>client\<close> and \<open>listener\<close> hold the handle of the live SSH client and of the remote
  listener (\<open>None\<close> is Go's nil); \<open>stopChan_closed\<close> says whether \<open>close(t.stopChan)\<close>
  has happened; the two callbacks are modelled by whether they are set. The world around
  the tunnel is the cancellation state of the governing context and the set of handles
  on which \<open>Close\<close> has been called.
\<close>

record SSHTunnel =
  config :: Config
  client :: "nat option"
  listener :: "nat option"
  stopChan_closed :: bool
  reconnect :: bool
  OnStatusChange_set :: bool
  PasswordPrompt_set :: bool

record world =
  tunnel :: SSHTunnel
  ctx_done :: bool
  closed_handles :: "nat set"

definition NewSSHTunnel :: "Config \<Rightarrow> SSHTunnel" where
  "NewSSHTunnel cfg =
     \<lparr>config = cfg, client = None, listener = None, stopChan_closed = False,
      reconnect = True, OnStatusChange_set = False, PasswordPrompt_set = False\<rparr>"

text \<open>A Go call either returns or panics; closing a closed channel panics.\<close>

datatype 'a go_result = Normal 'a | Panic string

definition Stop :: "world \<Rightarrow> world go_result" where
  "Stop w =
     (let t1 = (tunnel w)\<lparr>reconnect := False\<rparr>
      in if stopChan_closed t1 then Panic ''close of closed channel''
         else
           let t2 = t1\<lparr>stopChan_closed := True\<rparr>;
               cl1 = (case listener t2 of
                        None \<Rightarrow> closed_handles w
                      | Some l \<Rightarrow> insert l (closed_handles w));
               cl2 = (case client t2 of None \<Rightarrow> cl1 | Some c \<Rightarrow> insert c cl1)
           in Normal (w\<lparr>tunnel := t2, closed_handles := cl2\<rparr>))"

text \<open>Two calls of \<open>Stop\<close> on the same tunnel, one after the other.\<close>

definition Stop_twice :: "world \<Rightarrow> world go_result" where
  "Stop_twice w = (case Stop w of Normal w1 \<Rightarrow> Stop w1 | Panic m \<Rightarrow> Panic m)"

definition new_world :: "Config \<Rightarrow> nat option \<Rightarrow> nat option \<Rightarrow> world" where
  "new_world cfg c l =
     \<lparr>tunnel = (NewSSHTunnel cfg)\<lparr>client := c, listener := l\<rparr>,
      ctx_done = False, closed_handles = {}\<rparr>"

subsection \<open>Events from other goroutines, and select\<close>

text \<open>
  \<open>Start\<close> and \<open>connect\<close> see the context and the stop channel only at their
  \<open>select\<close> statements and when they read \<open>t.reconnect\<close>. An \<open>async\<close> value says what
  other goroutines have done by such a point: cancelled the context, called \<open>Stop\<close>
  (which the model lets happen once).
\<close>

record async =
  cancel_seen :: bool
  stop_seen :: bool

definition apply_async :: "async \<Rightarrow> world \<Rightarrow> world" where
  "apply_async a w =
     (let w1 = w\<lparr>ctx_done := ctx_done w \<or> cancel_seen a\<rparr>
      in if stop_seen a \<and> \<not> stopChan_closed (tunnel w1)
         then (case Stop w1 of Normal w2 \<Rightarrow> w2 | Panic m \<Rightarrow> w1)
         else w1)"

text \<open>
  A \<open>select\<close> with a \<open>default\<close> case takes a ready case, the default when none is
  ready; when both channels are ready the runtime chooses, here by \<open>tie\<close>.
\<close>

datatype selected = SelCtxDone | SelStop | SelDefault

definition select_poll :: "bool \<Rightarrow> world \<Rightarrow> selected" where
  "select_poll tie w =
     (if ctx_done w \<and> stopChan_closed (tunnel w) then (if tie then SelCtxDone else SelStop)
      else if ctx_done w then SelCtxDone
      else if stopChan_closed (tunnel w) then SelStop
      else SelDefault)"

text \<open>
  The \<open>select\<close> of the backoff: the timer of five seconds fires when neither the
  context nor the stop channel becomes ready first.
\<close>

datatype waited = TimerFired | WaitCtxDone | WaitStop

definition select_wait :: "bool \<Rightarrow> world \<Rightarrow> waited" where
  "select_wait tie w =
     (if ctx_done w \<and> stopChan_closed (tunnel w) then (if tie then WaitCtxDone else WaitStop)
      else if ctx_done w then WaitCtxDone
      else if stopChan_closed (tunnel w) then WaitStop
      else TimerFired)"

subsection \<open>Authentication methods\<close>

datatype AuthMethod = AgentAuth | PublicKeys string | Password string | KeyboardInteractive

text \<open>
  What \<open>buildAuthMethods\<close> reads from the machine: the agent socket of the environment,
  whether the agent can be dialled and the keys it lists (\<open>None\<close> when listing fails),
  the home directory, which files exist and what they hold, and which key bytes parse,
  plainly or with a passphrase.
\<close>

record auth_env =
  SSH_AUTH_SOCK :: string
  agent_dial_ok :: bool
  agent_keys :: "string list option"
  home_dir :: "string option"
  file_exists :: "string \<Rightarrow> bool"
  read_file :: "string \<Rightarrow> string option"
  parse_key :: "string \<Rightarrow> bool"
  parse_key_with :: "string \<Rightarrow> string \<Rightarrow> bool"

definition trySSHAgent :: "auth_env \<Rightarrow> AuthMethod option" where
  "trySSHAgent env =
     (if SSH_AUTH_SOCK env = '''' then None
      else if \<not> agent_dial_ok env then None
      else (case agent_keys env of
              None \<Rightarrow> None
            | Some keys \<Rightarrow> if length keys = 0 then None else Some AgentAuth))"

text \<open>
  \<open>filepath.Join\<close> of two elements, as the join with one separator. The library also
  cleans the result (doubled separators, dot elements, a trailing separator); for a home
  directory that needs no cleaning the two agree.
\<close>

definition filepath_Join :: "string \<Rightarrow> string \<Rightarrow> string" where
  "filepath_Join a b = a @ ''/'' @ b"

definition getDefaultKeyPaths :: "auth_env \<Rightarrow> string list" where
  "getDefaultKeyPaths env =
     (case home_dir env of
        None \<Rightarrow> []
      | Some home \<Rightarrow>
          let sshDir = filepath_Join home ''.ssh''
          in [filepath_Join sshDir ''id_rsa'', filepath_Join sshDir ''id_ed25519'',
              filepath_Join sshDir ''id_ecdsa'', filepath_Join sshDir ''id_dsa''])"

definition loadPrivateKeyFromPath :: "auth_env \<Rightarrow> SSHTunnel \<Rightarrow> string \<Rightarrow> AuthMethod option" where
  "loadPrivateKeyFromPath env t keyPath =
     (case read_file env keyPath of
        None \<Rightarrow> None
      | Some key \<Rightarrow>
          if parse_key env key then Some (PublicKeys keyPath)
          else if SSHKeyPassphrase (config t) \<noteq> ''''
          then (if parse_key_with env key (SSHKeyPassphrase (config t))
                then Some (PublicKeys keyPath) else None)
          else None)"

definition buildAuthMethods :: "auth_env \<Rightarrow> SSHTunnel \<Rightarrow> AuthMethod list" where
  "buildAuthMethods env t =
     (let methods0 = [];
          methods1 = (case trySSHAgent env of
                        Some agentAuth \<Rightarrow> methods0 @ [agentAuth]
                      | None \<Rightarrow> methods0);
          methods2 = (if SSHKeyPath (config t) \<noteq> ''''
                      then (case loadPrivateKeyFromPath env t (SSHKeyPath (config t)) of
                              Some keyAuth \<Rightarrow> methods1 @ [keyAuth]
                            | None \<Rightarrow> methods1)
                      else methods1);
          methods3 = fold (\<lambda>keyPath ms.
                             if file_exists env keyPath
                             then (case loadPrivateKeyFromPath env t keyPath of
                                     Some keyAuth \<Rightarrow> ms @ [keyAuth]
                                   | None \<Rightarrow> ms)
                             else ms)
                       (getDefaultKeyPaths env) methods2;
          methods4 = (if SSHPassword (config t) \<noteq> ''''
                      then methods3 @ [Password (SSHPassword (config t))]
                      else methods3)
      in methods4 @ [KeyboardInteractive])"

text \<open>
  The methods that resolved from an agent, a key file or a password: all but the
  keyboard-interactive method that closes the list.
\<close>

definition resolved_methods :: "auth_env \<Rightarrow> SSHTunnel \<Rightarrow> AuthMethod list" where
  "resolved_methods env t = butlast (buildAuthMethods env t)"

subsection \<open>connect\<close>

datatype tunnel_error =
    NoAuthMethods
  | DialFailed string
  | ListenFailed string string
  | AcceptFailed string
  | ContextCanceled

definition error_text :: "tunnel_error \<Rightarrow> string" where
  "error_text e =
     (case e of
        NoAuthMethods \<Rightarrow> ''no authentication methods available''
      | DialFailed m \<Rightarrow> ''failed to dial SSH: '' @ m
      | ListenFailed addr m \<Rightarrow> ''failed to listen on remote '' @ addr @ '': '' @ m
      | AcceptFailed m \<Rightarrow> ''accept error: '' @ m
      | ContextCanceled \<Rightarrow> ''context canceled'')"

text \<open>
  What can be observed of a run, in order: a dial of the SSH server with the methods
  offered, the password prompt, the handshake done (the client handle), the request for
  the remote listener, the listener established, a call of \<open>OnStatusChange\<close>, the start
  of the keepalive goroutine, an accepted connection and the start of its relay, the
  return of \<open>connect\<close>, and a backoff that ran its full time (in seconds).
\<close>

datatype event =
    EvDial string "AuthMethod list"
  | EvPasswordPrompt
  | EvHandshake nat
  | EvListen string
  | EvListenerUp nat
  | EvStatus bool "tunnel_error option"
  | EvGoKeepalive
  | EvAccepted
  | EvGoRelay
  | EvConnectReturned "tunnel_error option"
  | EvSleep nat

text \<open>
  One round of the accept loop as the environment decides it: what other goroutines did
  before the \<open>select\<close>, the runtime's choice, what other goroutines did while
  \<open>Accept\<close> was blocked, and what \<open>Accept\<close> did: it returned a connection, it returned
  an error, or it has not returned, no connection having arrived. \<open>Accept\<close> takes no
  context; of the events of other goroutines only \<open>Stop\<close>, which closes the listener,
  makes it return.
\<close>

datatype accept_outcome = Accepted | AcceptErr string | StillBlocked

record accept_obs =
  before_poll :: async
  poll_tie :: bool
  during_accept :: async
  accept_result :: accept_outcome

text \<open>
  The environment of one connect attempt. \<open>dial_result\<close> is the answer of \<open>ssh.Dial\<close>
  for the methods offered (\<open>None\<close>: connected), \<open>prompt_answer\<close> what the password
  prompt returns, \<open>listen_result\<close> the answer of \<open>client.Listen\<close>.
\<close>

record attempt =
  auth :: auth_env
  dial_result :: "AuthMethod list \<Rightarrow> string option"
  prompt_answer :: string
  listen_result :: "string option"
  client_handle :: nat
  listener_handle :: nat
  accepts :: "accept_obs list"

text \<open>
  The accept loop. Its result is \<open>None\<close> while \<open>connect\<close> is still blocked in
  \<open>Accept\<close> (or the observations end), and \<open>Some r\<close> when the loop returns \<open>r\<close>.
\<close>

fun accept_loop ::
  "accept_obs list \<Rightarrow> world \<Rightarrow> tunnel_error option option \<times> event list \<times> world" where
  "accept_loop [] w = (None, [], w)"
| "accept_loop (ob # obs) w =
     (let w1 = apply_async (before_poll ob) w
      in case select_poll (poll_tie ob) w1 of
           SelCtxDone \<Rightarrow> (Some (Some ContextCanceled), [], w1)
         | SelStop \<Rightarrow> (Some None, [], w1)
         | SelDefault \<Rightarrow>
             let w2 = apply_async (during_accept ob) w1
             in (case accept_result ob of
                   AcceptErr e \<Rightarrow>
                     if stopChan_closed (tunnel w2) then (Some None, [], w2)
                     else (Some (Some (AcceptFailed e)), [], w2)
                 | Accepted \<Rightarrow>
                     let (r, evs, w3) = accept_loop obs w2
                     in (r, [EvAccepted, EvGoRelay] @ evs, w3)
                 | StillBlocked \<Rightarrow>
                     if stopChan_closed (tunnel w2) then (Some None, [], w2)
                     else (None, [], w2)))"

text \<open>The two deferred functions of \<open>connect\<close>.\<close>

definition close_listener :: "attempt \<Rightarrow> world \<Rightarrow> world" where
  "close_listener a w =
     w\<lparr>tunnel := (tunnel w)\<lparr>listener := None\<rparr>,
       closed_handles := insert (listener_handle a) (closed_handles w)\<rparr>"

definition close_client :: "attempt \<Rightarrow> world \<Rightarrow> world" where
  "close_client a w =
     w\<lparr>tunnel := (tunnel w)\<lparr>client := None\<rparr>,
       closed_handles := insert (client_handle a) (closed_handles w)\<rparr>"

text \<open>
  \<open>connect\<close> from the point where the list of methods has been built. The
  keyboard-interactive callback that \<open>buildAuthMethods\<close> installs can itself call
  \<open>PasswordPrompt\<close>, once for each question of the server, while the first
  \<open>ssh.Dial\<close> runs and no password is configured; that happens inside the library and
  belongs to \<open>dial_result\<close> here. The trace records the prompt that \<open>connect\<close> makes
  itself, before the retry.
\<close>

definition connect_from ::
  "AuthMethod list \<Rightarrow> attempt \<Rightarrow> world \<Rightarrow> tunnel_error option option \<times> event list \<times> world" where
  "connect_from authMethods a w =
     (if length authMethods = 0 then (Some (Some NoAuthMethods), [], w)
      else
        let t = tunnel w;
            cfg = config t;
            addr = SSHHost cfg @ '':'' @ fmt_d (SSHPort cfg);
            (dial_err, evs1, w1) =
              (case dial_result a authMethods of
                 None \<Rightarrow> (None, [EvDial addr authMethods], w)
               | Some e \<Rightarrow>
                   if SSHPassword cfg = '''' \<and> PasswordPrompt_set t
                   then (let pw = prompt_answer a
                         in (dial_result a [Password pw],
                             [EvDial addr authMethods, EvPasswordPrompt,
                              EvDial addr [Password pw]],
                             w\<lparr>tunnel := t\<lparr>config := cfg\<lparr>SSHPassword := pw\<rparr>\<rparr>\<rparr>))
                   else (Some e, [EvDial addr authMethods], w))
        in case dial_err of
             Some e \<Rightarrow> (Some (Some (DialFailed e)), evs1, w1)
           | None \<Rightarrow>
               let w2 = w1\<lparr>tunnel := (tunnel w1)\<lparr>client := Some (client_handle a)\<rparr>\<rparr>;
                   remoteAddr = ''127.0.0.1:'' @ fmt_d (RemotePort (config (tunnel w2)));
                   evs2 = evs1 @ [EvHandshake (client_handle a), EvListen remoteAddr]
               in (case listen_result a of
                     Some e \<Rightarrow>
                       (Some (Some (ListenFailed remoteAddr e)), evs2, close_client a w2)
                   | None \<Rightarrow>
                       let w3 = w2\<lparr>tunnel :=
                                  (tunnel w2)\<lparr>listener := Some (listener_handle a)\<rparr>\<rparr>;
                           evs3 = evs2 @ [EvListenerUp (listener_handle a)]
                                  @ (if OnStatusChange_set (tunnel w3)
                                     then [EvStatus True None] else [])
                                  @ [EvGoKeepalive];
                           (r, evs4, w4) = accept_loop (accepts a) w3
                       in (case r of
                             None \<Rightarrow> (None, evs3 @ evs4, w4)
                           | Some res \<Rightarrow>
                               (Some res, evs3 @ evs4,
                                close_client a (close_listener a w4)))))"

definition connect :: "attempt \<Rightarrow> world \<Rightarrow> tunnel_error option option \<times> event list \<times> world" where
  "connect a w = connect_from (buildAuthMethods (auth a) (tunnel w)) a w"

subsection \<open>keepalive\<close>



subsection \<open>Start\<close>

text \<open>
  One round of the loop of \<open>Start\<close> as the environment decides it. The result of a run
  over finitely many rounds is \<open>Running\<close> when \<open>Start\<close> has not returned by their end.
\<close>

record iteration =
  at_check :: async
  check_tie :: bool
  attempt_env :: attempt
  before_reconnect_read :: async
  during_wait :: async
  wait_tie :: bool

datatype start_result = Running | Returned "tunnel_error option"

fun Start :: "iteration list \<Rightarrow> world \<Rightarrow> start_result \<times> event list \<times> world" where
  "Start [] w = (Running, [], w)"
| "Start (it # rest) w =
     (let w1 = apply_async (at_check it) w
      in case select_poll (check_tie it) w1 of
           SelCtxDone \<Rightarrow> (Returned (Some ContextCanceled), [], w1)
         | SelStop \<Rightarrow> (Returned None, [], w1)
         | SelDefault \<Rightarrow>
             (case connect (attempt_env it) w1 of
                (None, evs, w2) \<Rightarrow> (Running, evs, w2)
              | (Some err, evs, w2) \<Rightarrow>
                  let evs1 = evs @ [EvConnectReturned err]
                             @ (case err of
                                  Some e \<Rightarrow>
                                    if OnStatusChange_set (tunnel w2)
                                    then [EvStatus False (Some e)] else []
                                | None \<Rightarrow> []);
                      w3 = apply_async (before_reconnect_read it) w2
                  in if \<not> reconnect (tunnel w3) then (Returned err, evs1, w3)
                     else
                       let w4 = apply_async (during_wait it) w3
                       in (case select_wait (wait_tie it) w4 of
                             TimerFired \<Rightarrow>
                               (let (r, evs', w5) = Start rest w4
                                in (r, evs1 @ [EvSleep 5] @ evs', w5))
                           | WaitCtxDone \<Rightarrow> (Returned (Some ContextCanceled), evs1, w4)
                           | WaitStop \<Rightarrow> (Returned None, evs1, w4))))"

subsection \<open>The discipline of the status callback on a trace\<close>

text \<open>
  \<open>status_ok prev ev\<close> relates an event to the one before it: a call
  \<open>OnStatusChange(true, nil)\<close> comes directly after the listener is established, a call
  \<open>OnStatusChange(false, err)\<close> directly after \<open>connect\<close> returned \<open>err\<close>, and no other
  event comes directly after either of these two occasions. \<open>owes_status prev\<close> says
  that a call is still due after the last event.
\<close>

fun status_ok :: "event option \<Rightarrow> event \<Rightarrow> bool" where
  "status_ok prev (EvStatus True x) =
     (x = None \<and> (case prev of Some (EvListenerUp h) \<Rightarrow> True | _ \<Rightarrow> False))"
| "status_ok prev (EvStatus False x) = (x \<noteq> None \<and> prev = Some (EvConnectReturned x))"
| "status_ok prev ev =
     (case prev of
        Some (EvListenerUp h) \<Rightarrow> False
      | Some (EvConnectReturned (Some e)) \<Rightarrow> False
      | _ \<Rightarrow> True)"

fun status_chain :: "event option \<Rightarrow> event list \<Rightarrow> bool" where
  "status_chain prev [] = True"
| "status_chain prev (ev # evs) = (status_ok prev ev \<and> status_chain (Some ev) evs)"

fun last_event :: "event option \<Rightarrow> event list \<Rightarrow> event option" where
  "last_event prev [] = prev"
| "last_event prev (ev # evs) = last_event (Some ev) evs"

definition owes_status :: "event option \<Rightarrow> bool" where
  "owes_status prev =
     (case prev of
        Some (EvListenerUp h) \<Rightarrow> True
      | Some (EvConnectReturned (Some e)) \<Rightarrow> True
      | _ \<Rightarrow> False)"

text \<open>The calls of the status callback in a trace, and the events at which the tunnel
  changes its state in the spec's state machine: the start of an attempt (Connecting),
  the listener established (Listening), an accepted connection (Relaying), the end of an
  attempt (Reconnecting or Stopped).\<close>

fun status_calls :: "event list \<Rightarrow> (bool \<times> tunnel_error option) list" where
  "status_calls [] = []"
| "status_calls (EvStatus b x # evs) = (b, x) # status_calls evs"
| "status_calls (ev # evs) = status_calls evs"

fun spec_transitions :: "event option \<Rightarrow> event list \<Rightarrow> nat" where
  "spec_transitions prev [] = 0"
| "spec_transitions prev (EvDial addr ms # evs) =
     (case prev of
        Some EvPasswordPrompt \<Rightarrow> spec_transitions (Some (EvDial addr ms)) evs
      | _ \<Rightarrow> Suc (spec_transitions (Some (EvDial addr ms)) evs))"
| "spec_transitions prev (EvListenerUp h # evs) = Suc (spec_transitions (Some (EvListenerUp h)) evs)"
| "spec_transitions prev (EvAccepted # evs) = Suc (spec_transitions (Some EvAccepted) evs)"
| "spec_transitions prev (EvConnectReturned x # evs) =
     Suc (spec_transitions (Some (EvConnectReturned x)) evs)"
| "spec_transitions prev (ev # evs) = spec_transitions (Some ev) evs"

text \<open>Events after which no call of the status callback is due and which are no call.\<close>

fun plain :: "event \<Rightarrow> bool" where
  "plain (EvStatus b x) = False"
| "plain (EvListenerUp h) = False"
| "plain (EvConnectReturned (Some e)) = False"
| "plain ev = True"

subsection \<open>Concrete runs used to instantiate the statements\<close>

definition no_async :: async where
  "no_async = \<lparr>cancel_seen = False, stop_seen = False\<rparr>"

definition stop_now :: async where
  "stop_now = \<lparr>cancel_seen = False, stop_seen = True\<rparr>"

definition remote_config :: Config where
  "remote_config =
     zero_Config\<lparr>SSHHost := ''b.example'', SSHPort := 22, SSHUser := ''dev'',
                 ProxyPort := 8080, RemotePort := 8080\<rparr>"

definition watched_world :: world where
  "watched_world =
     \<lparr>tunnel = (NewSSHTunnel remote_config)\<lparr>OnStatusChange_set := True\<rparr>,
      ctx_done = False, closed_handles = {}\<rparr>"

text \<open>A machine with no agent, no key file and no home directory.\<close>

definition bare_auth :: auth_env where
  "bare_auth =
     \<lparr>SSH_AUTH_SOCK = '''', agent_dial_ok = False, agent_keys = None, home_dir = None,
      file_exists = (\<lambda>path. False), read_file = (\<lambda>path. None),
      parse_key = (\<lambda>key. False), parse_key_with = (\<lambda>key pass. False)\<rparr>"

text \<open>An attempt whose dial is refused, and one that reaches the accept loop.\<close>

definition refused_attempt :: attempt where
  "refused_attempt =
     \<lparr>auth = bare_auth,
      dial_result = (\<lambda>ms. Some ''ssh: handshake failed: unable to authenticate''),
      prompt_answer = '''', listen_result = None, client_handle = 1, listener_handle = 2,
      accepts = []\<rparr>"

definition listening_attempt :: "accept_obs list \<Rightarrow> attempt" where
  "listening_attempt obs =
     \<lparr>auth = bare_auth, dial_result = (\<lambda>ms. None), prompt_answer = '''',
      listen_result = None, client_handle = 1, listener_handle = 2, accepts = obs\<rparr>"

definition stopped_in_accept :: accept_obs where
  "stopped_in_accept =
     \<lparr>before_poll = no_async, poll_tie = False, during_accept = stop_now,
      accept_result = AcceptErr ''use of closed network connection''\<rparr>"

text \<open>The context is cancelled while \<open>Accept\<close> waits and no connection arrives.\<close>

definition cancel_now :: async where
  "cancel_now = \<lparr>cancel_seen = True, stop_seen = False\<rparr>"

definition cancelled_in_accept :: accept_obs where
  "cancelled_in_accept =
     \<lparr>before_poll = no_async, poll_tie = False, during_accept = cancel_now,
      accept_result = StillBlocked\<rparr>"

definition quiet_round :: "attempt \<Rightarrow> iteration" where
  "quiet_round a =
     \<lparr>at_check = no_async, check_tie = False, attempt_env = a,
      before_reconnect_read = no_async, during_wait = no_async, wait_tie = False\<rparr>"

definition listening_world :: world where
  "listening_world =
     watched_world\<lparr>tunnel := (tunnel watched_world)\<lparr>client := Some 1, listener := Some 2\<rparr>\<rparr>"

text \<open>
  What \<open>Start\<close> records between the return of \<open>connect\<close> and the backoff: the return
  itself and, for an error, the call of the status callback when one is set.
\<close>

definition failure_report :: "bool \<Rightarrow> tunnel_error option \<Rightarrow> event list" where
  "failure_report cb err =
     [EvConnectReturned err]
     @ (case err of Some e \<Rightarrow> if cb then [EvStatus False (Some e)] else [] | None \<Rightarrow> [])"

section \<open>What lies between the handler and the origin: the default transport\<close>











section \<open>app.go: how the application stops a tunnel\<close>

text \<open>
  The \<open>select\<close> of the keepalive goroutine: the cases that are ready, in the order of the
  source, and the one the runtime picks among them; \<open>None\<close> while no case is ready.
\<close>

datatype ka_case = CaseCtxDone | CaseStop | CaseTick

definition select_keepalive :: "bool \<Rightarrow> nat \<Rightarrow> world \<Rightarrow> ka_case option" where
  "select_keepalive tick_ready pick w =
     (let ready = (if ctx_done w then [CaseCtxDone] else [])
                  @ (if stopChan_closed (tunnel w) then [CaseStop] else [])
                  @ (if tick_ready then [CaseTick] else [])
      in if ready = [] then None else Some (ready ! (pick mod length ready)))"

text \<open>
  \<open>a.tunnel\<close> is a pointer: \<open>None\<close> is nil, \<open>Some w\<close> the tunnel with the world it
  lives in; \<open>a.tunnelStop\<close> is set and cleared together with it. \<open>App.Stop\<close> cancels the
  context, stops the tunnel it holds and drops the pointer; \<open>App.Start\<close> cancels the
  context, stops the tunnel it holds and puts a new one, made by \<open>NewSSHTunnel\<close> and
  given a status callback, in its place, under a new context. Both hold \<open>a.mu\<close>.
\<close>

definition App_Stop_tunnel :: "world option \<Rightarrow> world option go_result" where
  "App_Stop_tunnel a =
     (case a of
        None \<Rightarrow> Normal None
      | Some w \<Rightarrow>
          (case Stop (w\<lparr>ctx_done := True\<rparr>) of
             Normal w1 \<Rightarrow> Normal None
           | Panic m \<Rightarrow> Panic m))"

definition started_world :: "Config \<Rightarrow> world" where
  "started_world cfg =
     \<lparr>tunnel = (NewSSHTunnel cfg)\<lparr>OnStatusChange_set := True\<rparr>,
      ctx_done = False, closed_handles = {}\<rparr>"

definition App_Start_tunnel :: "Config \<Rightarrow> world option \<Rightarrow> world option go_result" where
  "App_Start_tunnel cfg a =
     (case a of
        None \<Rightarrow> Normal (Some (started_world cfg))
      | Some w \<Rightarrow>
          (case Stop (w\<lparr>ctx_done := True\<rparr>) of
             Normal w1 \<Rightarrow> Normal (Some (started_world cfg))
           | Panic m \<Rightarrow> Panic m))"

text \<open>
  A history of the application: calls of \<open>App.Start\<close> and \<open>App.Stop\<close> in the order in
  which they get \<open>a.mu\<close>, and between them what the goroutine of the tunnel writes to
  \<open>t.client\<close> and \<open>t.listener\<close> (\<open>connect\<close> and its deferred functions).
\<close>

datatype app_op = OpStart Config | OpStop | OpSession "nat option" "nat option"

fun App_step :: "app_op \<Rightarrow> world option \<Rightarrow> world option go_result" where
  "App_step (OpStart cfg) a = App_Start_tunnel cfg a"
| "App_step OpStop a = App_Stop_tunnel a"
| "App_step (OpSession c l) a =
     Normal (map_option (\<lambda>w. w\<lparr>tunnel := (tunnel w)\<lparr>client := c, listener := l\<rparr>\<rparr>) a)"

fun App_run :: "app_op list \<Rightarrow> world option \<Rightarrow> world option go_result" where
  "App_run [] a = Normal a"
| "App_run (op1 # ops) a =
     (case App_step op1 a of Normal a1 \<Rightarrow> App_run ops a1 | Panic m \<Rightarrow> Panic m)"

definition not_stopped :: "world option \<Rightarrow> bool" where
  "not_stopped a = (case a of None \<Rightarrow> True | Some w \<Rightarrow> \<not> stopChan_closed (tunnel w))"

text \<open>An HTTPS upstream proxy that refuses with \<open>403\<close>, and a server that dials through it.\<close>

definition upstream_server :: ProxyServer where
  "upstream_server =
     \<lparr>port = 8080, httpProxy = '''', httpsProxy = ''http://10.0.0.1:3128'', serving = True\<rparr>"

definition refusing_upstream :: connect_env where
  "refusing_upstream =
     \<lparr>direct_dial = None, upstream = upstream_answers resp_403_length_200,
      hijacker_ok = True, hijack_err = None, established_write_err = None,
      pair = client_done_pair [], rounds = 4\<rparr>"

section \<open>Proofs: configuration\<close>

lemma dec_digits_nonempty: "dec_digits n \<noteq> []"
  by (subst dec_digits.simps) simp

lemma newRecordID_nonempty: "newRecordID e \<noteq> ''''"
  by (cases e)
     (simp_all add: newRecordID_def hex_EncodeToString_def fmt_d_def dec_digits_nonempty upt_rec)

lemma find_from_none:
  "0 \<le> i \<Longrightarrow> (find_from i rs ident = - 1) = (\<forall>r \<in> set rs. ID r \<noteq> ident)"
proof (induction rs arbitrary: i)
  case Nil
  then show ?case by simp
next
  case (Cons r rs)
  then show ?case by auto
qed

lemma find_Some_ex:
  "x \<in> set xs \<Longrightarrow> P x \<Longrightarrow> \<exists>y. find P xs = Some y \<and> y \<in> set xs \<and> P y"
  by (induction xs) auto

lemma applyDefaults_ports: "ports (applyDefaultsToRecord r) = default_ports (ports r)"
  by (simp add: applyDefaultsToRecord_def spec_default_def default_ports_def ports_def Let_def)

lemma applyDefaults_ID: "ID (applyDefaultsToRecord r) = ID r"
  by (simp add: applyDefaultsToRecord_def Let_def)

lemma ports_ID_update: "ports (r\<lparr>ID := i\<rparr>) = ports r"
  by (simp add: ports_def)

lemma normalize_records_Cons:
  "normalize_records rng n (r # rs) =
     (if ID r = ''''
      then ((applyDefaultsToRecord r)\<lparr>ID := newRecordID (rng n)\<rparr>
              # fst (normalize_records rng (Suc n) rs),
            snd (normalize_records rng (Suc n) rs))
      else (applyDefaultsToRecord r # fst (normalize_records rng n rs),
            snd (normalize_records rng n rs)))"
  by (simp add: Let_def applyDefaults_ID split: prod.splits)

lemma normalize_records_ports:
  "map ports (fst (normalize_records rng n rs)) = map (\<lambda>r. default_ports (ports r)) rs"
  by (induction rs arbitrary: n)
     (simp_all add: applyDefaults_ports ports_ID_update normalize_records_Cons
               del: normalize_records.simps(2))

lemma normalize_records_ids:
  "r \<in> set (fst (normalize_records rng n rs)) \<Longrightarrow> ID r \<noteq> ''''"
  by (induction rs arbitrary: n)
     (auto simp: newRecordID_nonempty normalize_records_Cons applyDefaults_ID
           simp del: normalize_records.simps(2) split: if_splits)

lemma normalize_records_length:
  "length (fst (normalize_records rng n rs)) = length rs"
  by (induction rs arbitrary: n)
     (simp_all add: normalize_records_Cons del: normalize_records.simps(2))

lemma normalized_records_nonempty: "normalized_records rng n c \<noteq> []"
  using normalize_records_length
          [of rng "Suc n" "[applyDefaultsToRecord (record_from_legacy (newRecordID (rng n)) c)]"]
        normalize_records_length [of rng n "Records c"]
  by (auto simp: normalized_records_def simp del: normalize_records.simps)

lemma normalized_records_ids: "r \<in> set (normalized_records rng n c) \<Longrightarrow> ID r \<noteq> []"
  unfolding normalized_records_def
  by (cases "Records c = []") (auto dest: normalize_records_ids simp del: normalize_records.simps)

lemma normalize_fst:
  "fst (normalize rng n c) =
     c\<lparr>Records := normalized_records rng n c,
       ActiveID :=
         (if ActiveID c = [] \<or> find_from 0 (normalized_records rng n c) (ActiveID c) = - 1
          then ID (hd (normalized_records rng n c)) else ActiveID c)\<rparr>"
proof -
  have ne: "normalized_records rng n c \<noteq> []"
    by (rule normalized_records_nonempty)
  have hd_id: "ID (hd (normalized_records rng n c)) \<noteq> []"
    using ne normalized_records_ids [of "hd (normalized_records rng n c)" rng n c] by simp
  have hd_found:
    "find_from 0 (normalized_records rng n c) (ID (hd (normalized_records rng n c))) \<noteq> - 1"
    using ne by (cases "normalized_records rng n c") simp_all
  show ?thesis
  proof (cases "Records c = []")
    case True
    then show ?thesis
      using ne hd_id hd_found
      by (simp add: normalize_def Let_def findRecordIndex_def normalized_records_def split_beta
               del: normalize_records.simps)
  next
    case False
    then show ?thesis
      using ne hd_id hd_found
      by (simp add: normalize_def Let_def findRecordIndex_def normalized_records_def split_beta
               del: normalize_records.simps)
  qed
qed

lemma normalized_records_ports:
  "map ports (normalized_records rng n c) =
     map default_ports (if Records c = [] then [legacy_ports c] else map ports (Records c))"
proof -
  have "ports (record_from_legacy i c) = legacy_ports c" for i :: string
    by (simp add: ports_def legacy_ports_def record_from_legacy_def)
  moreover have "default_ports (default_ports t) = default_ports t" for t
    by (simp add: default_ports_def spec_default_def)
  ultimately show ?thesis
    by (simp add: normalized_records_def normalize_records_ports applyDefaults_ports
             del: normalize_records.simps)
qed

lemma getActiveRecord_normalize:
  "\<exists>r. getActiveRecord (fst (normalize rng n c)) = Some r
       \<and> r \<in> set (normalized_records rng n c)"
proof -
  let ?rs = "normalized_records rng n c"
  let ?a = "ActiveID (fst (normalize rng n c))"
  have ne: "?rs \<noteq> []" by (rule normalized_records_nonempty)
  then have hd_in: "hd ?rs \<in> set ?rs" by simp
  have a_ne: "?a \<noteq> []"
    using normalized_records_ids [OF hd_in] by (simp add: normalize_fst)
  have "\<exists>r \<in> set ?rs. ID r = ?a"
    using hd_in by (auto simp: normalize_fst find_from_none)
  then obtain r where "r \<in> set ?rs" "ID r = ?a" by blast
  from find_Some_ex [of r ?rs "\<lambda>r. ID r = ?a", OF this]
  show ?thesis using a_ne
    by (auto simp: getActiveRecord_def normalize_fst)
qed

lemma legacy_ports_sync:
  "getActiveRecord c = Some r \<Longrightarrow> legacy_ports (syncLegacyFromActive c) = ports r"
  by (simp add: syncLegacyFromActive_def legacy_ports_def ports_def)

lemma getActiveRecord_secret:
  "getActiveRecord (c\<lparr>SSHPassword := p, SSHKeyPassphrase := q\<rparr>) = getActiveRecord c"
  by (simp add: getActiveRecord_def)

text \<open>
  Claim C9. For a fresh and for a loaded configuration, a port field that is zero gets
  its default (22 for SSH, 8080 for the proxy and the remote port) and a nonzero port is
  left as it is: \<open>applyDefaultsToRecord\<close> does so on a record; \<open>DefaultConfig\<close> holds
  22, 8080 and 8080 in its record and in its top-level fields; after loading, the ports
  of every record are the defaulted ports of the decoded record (of the decoded top-level
  fields, when the file had no record list); the top-level ports that \<open>GetConfig\<close> hands
  out are those of one of these records; and \<open>App.Start\<close> and \<open>App.SaveConfig\<close> default
  the top-level ports of the configuration they receive.
\<close>

theorem port_defaults_applied:
  "ports (applyDefaultsToRecord r) = default_ports (ports r)
   \<and> applyDefaultsToRecord r =
       r\<lparr>RemoteRecord.SSHPort := spec_default 22 (RemoteRecord.SSHPort r),
         RemoteRecord.ProxyPort := spec_default 8080 (RemoteRecord.ProxyPort r),
         RemoteRecord.RemotePort := spec_default 8080 (RemoteRecord.RemotePort r)\<rparr>
   \<and> legacy_ports (DefaultConfig e) = (22, 8080, 8080)
   \<and> map ports (Records (DefaultConfig e)) = [(22, 8080, 8080)]
   \<and> map ports (Records (fst (load_decoded rng n c))) =
       map default_ports (if Records c = [] then [legacy_ports c] else map ports (Records c))
   \<and> legacy_ports (GetConfig (fst (load_decoded rng n c))) \<in>
       set (map default_ports
              (if Records c = [] then [legacy_ports c] else map ports (Records c)))
   \<and> legacy_ports (start_defaults c) = default_ports (legacy_ports c)"
proof -
  have a: "ports (applyDefaultsToRecord r) = default_ports (ports r)"
    by (rule applyDefaults_ports)
  have b: "applyDefaultsToRecord r =
       r\<lparr>RemoteRecord.SSHPort := spec_default 22 (RemoteRecord.SSHPort r),
         RemoteRecord.ProxyPort := spec_default 8080 (RemoteRecord.ProxyPort r),
         RemoteRecord.RemotePort := spec_default 8080 (RemoteRecord.RemotePort r)\<rparr>"
    by (simp add: applyDefaultsToRecord_def spec_default_def Let_def)
  have d: "legacy_ports (DefaultConfig e) = (22, 8080, 8080)"
    using newRecordID_nonempty [of e]
    by (simp add: DefaultConfig_def Let_def syncLegacyFromActive_def getActiveRecord_def
                  legacy_ports_def)
  have d': "map ports (Records (DefaultConfig e)) = [(22, 8080, 8080)]"
    using newRecordID_nonempty [of e]
    by (simp add: DefaultConfig_def Let_def syncLegacyFromActive_def getActiveRecord_def
                  ports_def)
  have l: "map ports (Records (fst (load_decoded rng n c))) =
       map default_ports (if Records c = [] then [legacy_ports c] else map ports (Records c))"
    by (simp add: load_decoded_def normalize_fst normalized_records_ports)
  obtain ar where ar: "getActiveRecord (fst (normalize rng n c)) = Some ar"
      "ar \<in> set (normalized_records rng n c)"
    using getActiveRecord_normalize by blast
  have "legacy_ports (GetConfig (fst (load_decoded rng n c))) = ports ar"
    using ar(1)
    by (simp add: GetConfig_def load_decoded_def getActiveRecord_secret legacy_ports_sync)
  moreover have "ports ar \<in> set (map ports (normalized_records rng n c))"
    using ar(2) by simp
  ultimately have g: "legacy_ports (GetConfig (fst (load_decoded rng n c))) \<in>
       set (map default_ports
              (if Records c = [] then [legacy_ports c] else map ports (Records c)))"
    by (simp only: normalized_records_ports)
  have s: "legacy_ports (start_defaults c) = default_ports (legacy_ports c)"
    by (simp add: start_defaults_def legacy_ports_def default_ports_def spec_default_def Let_def)
  from a b d d' l g s show ?thesis by blast
qed

theorem port_defaults_applied_witness:
  "map ports (Records (fst (load_decoded (\<lambda>k. RandErr 7) 0 (zero_Config\<lparr>SSHPort := 2222\<rparr>))))
     = [(2222, 8080, 8080)]
   \<and> legacy_ports (GetConfig (fst (load_decoded (\<lambda>k. RandErr 7) 0
        (zero_Config\<lparr>SSHPort := 2222\<rparr>)))) = (2222, 8080, 8080)
   \<and> legacy_ports (start_defaults zero_Config) = (22, 8080, 8080)"
  using port_defaults_applied
          [where rng = "\<lambda>k. RandErr 7" and n = 0
             and c = "zero_Config\<lparr>SSHPort := 2222\<rparr>"]
        port_defaults_applied [where c = zero_Config]
  by (simp add: zero_Config_def legacy_ports_def default_ports_def spec_default_def)

lemma normalized_records_secret:
  "normalized_records rng n (c\<lparr>SSHPassword := p, SSHKeyPassphrase := q\<rparr>) =
   normalized_records rng n c"
  by (simp add: normalized_records_def record_from_legacy_def del: normalize_records.simps)

lemma normalize_secret:
  "fst (normalize rng n (c\<lparr>SSHPassword := p, SSHKeyPassphrase := q\<rparr>)) =
   (fst (normalize rng n c))\<lparr>SSHPassword := p, SSHKeyPassphrase := q\<rparr>"
  by (simp add: normalize_fst normalized_records_secret)

lemma sync_secret:
  "syncLegacyFromActive (c\<lparr>SSHPassword := p, SSHKeyPassphrase := q\<rparr>) =
   (syncLegacyFromActive c)\<lparr>SSHPassword := p, SSHKeyPassphrase := q\<rparr>"
  by (simp add: syncLegacyFromActive_def getActiveRecord_secret split: option.splits)

lemma Save_written_eq:
  "Save_written marshal rng n c =
     marshal (configToSave (syncLegacyFromActive (fst (normalize rng n c))))"
  by (simp add: Save_written_def Save_def split_beta Let_def)

text \<open>
  Claim C10. The SSH password and the key passphrase do not reach the disk or the caller
  of \<open>App.GetConfig\<close>: the bytes \<open>Config.Save\<close> hands to the file system, and the
  configuration \<open>GetConfig\<close> returns, are the same for two configurations that differ
  only in \<open>SSHPassword\<close> and \<open>SSHKeyPassphrase\<close>; both fields are empty in the value
  that is marshalled and in the value that is returned.
\<close>

theorem secrets_not_exposed:
  "Save_written marshal rng n (c\<lparr>SSHPassword := p, SSHKeyPassphrase := q\<rparr>) =
     Save_written marshal rng n c
   \<and> GetConfig (c\<lparr>SSHPassword := p, SSHKeyPassphrase := q\<rparr>) = GetConfig c
   \<and> (\<exists>saved. Save_written marshal rng n c = marshal saved
          \<and> SSHPassword saved = '''' \<and> SSHKeyPassphrase saved = '''')
   \<and> SSHPassword (GetConfig c) = '''' \<and> SSHKeyPassphrase (GetConfig c) = ''''"
proof -
  have s: "Save_written marshal rng n (c\<lparr>SSHPassword := p, SSHKeyPassphrase := q\<rparr>) =
     Save_written marshal rng n c"
    by (simp add: Save_written_eq normalize_secret sync_secret configToSave_def)
  have g: "GetConfig (c\<lparr>SSHPassword := p, SSHKeyPassphrase := q\<rparr>) = GetConfig c"
    by (simp add: GetConfig_def)
  have e: "\<exists>saved. Save_written marshal rng n c = marshal saved
          \<and> SSHPassword saved = '''' \<and> SSHKeyPassphrase saved = ''''"
    unfolding Save_written_eq
    by (rule exI [of _ "configToSave (syncLegacyFromActive (fst (normalize rng n c)))"])
       (simp add: configToSave_def)
  have f: "SSHPassword (GetConfig c) = '''' \<and> SSHKeyPassphrase (GetConfig c) = ''''"
    by (simp add: GetConfig_def syncLegacyFromActive_def split: option.splits)
  from s g e f show ?thesis by blast
qed

theorem secrets_not_exposed_witness:
  "Save_written (\<lambda>c. (SSHHost c, SSHPassword c, SSHKeyPassphrase c)) (\<lambda>k. RandErr 7) 0
     (zero_Config\<lparr>SSHHost := ''b.example'', SSHPassword := ''hunter2'',
                   SSHKeyPassphrase := ''opensesame''\<rparr>)
   = Save_written (\<lambda>c. (SSHHost c, SSHPassword c, SSHKeyPassphrase c)) (\<lambda>k. RandErr 7) 0
       (zero_Config\<lparr>SSHHost := ''b.example''\<rparr>)"
  using secrets_not_exposed
          [where marshal = "\<lambda>c. (SSHHost c, SSHPassword c, SSHKeyPassphrase c)"
             and rng = "\<lambda>k. RandErr 7" and n = 0
             and c = "zero_Config\<lparr>SSHHost := ''b.example''\<rparr>"
             and p = "''hunter2''" and q = "''opensesame''"]
  by simp

section \<open>Proofs: the forward proxy\<close>

lemma slice_eq_iff:
  assumes "i + length sub \<le> length s"
  shows "(slice s i (i + length sub) = sub) = (\<exists>post. drop i s = sub @ post)"
proof
  assume "slice s i (i + length sub) = sub"
  then have "take (length sub) (drop i s) = sub" by (simp add: slice_def)
  then have "drop i s = sub @ drop (length sub) (drop i s)"
    using append_take_drop_id [of "length sub" "drop i s"] by simp
  then show "\<exists>post. drop i s = sub @ post" ..
next
  assume "\<exists>post. drop i s = sub @ post"
  then show "slice s i (i + length sub) = sub" by (auto simp: slice_def)
qed

lemma stringContains_loop_iff:
  "stringContains_loop i s sub =
     (\<exists>k\<ge>i. k + length sub \<le> length s \<and> slice s k (k + length sub) = sub)"
proof (induction i s sub rule: stringContains_loop.induct)
  case (1 i s sub)
  show ?case
  proof (cases "int i \<le> int (length s) - int (length sub)")
    case False
    then have "\<not> stringContains_loop i s sub"
      by (subst stringContains_loop.simps) simp
    moreover from False
    have "\<not> (\<exists>k\<ge>i. k + length sub \<le> length s \<and> slice s k (k + length sub) = sub)"
      by auto
    ultimately show ?thesis by blast
  next
    case True
    then have le: "i + length sub \<le> length s" by linarith
    show ?thesis
    proof (cases "slice s i (i + length sub) = sub")
      case hit: True
      then have "stringContains_loop i s sub"
        using True by (subst stringContains_loop.simps) simp
      then show ?thesis using hit le by blast
    next
      case miss: False
      then have "stringContains_loop i s sub = stringContains_loop (i + 1) s sub"
        using True by (subst stringContains_loop.simps) simp
      also have "\<dots> =
          (\<exists>k\<ge>i + 1. k + length sub \<le> length s \<and> slice s k (k + length sub) = sub)"
        using "1.IH" True miss by simp
      also have "\<dots> =
          (\<exists>k\<ge>i. k + length sub \<le> length s \<and> slice s k (k + length sub) = sub)"
      proof
        assume "\<exists>k\<ge>i + 1. k + length sub \<le> length s \<and> slice s k (k + length sub) = sub"
        then obtain k where "k \<ge> i + 1" "k + length sub \<le> length s"
            "slice s k (k + length sub) = sub" by blast
        then have "k \<ge> i \<and> k + length sub \<le> length s \<and> slice s k (k + length sub) = sub"
          by simp
        then show "\<exists>k\<ge>i. k + length sub \<le> length s \<and> slice s k (k + length sub) = sub"
          by blast
      next
        assume "\<exists>k\<ge>i. k + length sub \<le> length s \<and> slice s k (k + length sub) = sub"
        then obtain k where k: "k \<ge> i" "k + length sub \<le> length s"
            "slice s k (k + length sub) = sub" by blast
        with miss have "k \<noteq> i" by blast
        with k have "k \<ge> i + 1 \<and> k + length sub \<le> length s \<and> slice s k (k + length sub) = sub"
          by simp
        then show "\<exists>k\<ge>i + 1. k + length sub \<le> length s \<and> slice s k (k + length sub) = sub"
          by blast
      qed
      finally show ?thesis .
    qed
  qed
qed

lemma is_substring_iff:
  "is_substring sub s = (\<exists>k. k + length sub \<le> length s \<and> slice s k (k + length sub) = sub)"
proof
  assume "is_substring sub s"
  then obtain pre post where s: "s = pre @ sub @ post" by (auto simp: is_substring_def)
  then have "length pre + length sub \<le> length s
      \<and> slice s (length pre) (length pre + length sub) = sub"
    by (simp add: slice_def)
  then show "\<exists>k. k + length sub \<le> length s \<and> slice s k (k + length sub) = sub" by blast
next
  assume "\<exists>k. k + length sub \<le> length s \<and> slice s k (k + length sub) = sub"
  then obtain k where k: "k + length sub \<le> length s" "slice s k (k + length sub) = sub" by blast
  then obtain post where "drop k s = sub @ post" using slice_eq_iff by blast
  then have "s = take k s @ sub @ post"
    using append_take_drop_id [of k s] by simp
  then show "is_substring sub s" unfolding is_substring_def by blast
qed

lemma stringContains_iff: "stringContains s sub = is_substring sub s"
  by (simp add: stringContains_def stringContains_loop_iff is_substring_iff)

lemma contains_iff: "contains s sub = is_substring sub s"
proof -
  have a: "is_substring sub s \<Longrightarrow> length sub \<le> length s"
    by (auto simp: is_substring_def)
  have b: "is_substring sub s" if "length sub \<le> length s" "slice s 0 (length sub) = sub"
    unfolding is_substring_iff using that by (intro exI [of _ 0]) simp
  have c: "is_substring sub s" if "length sub < length s" "slice s 1 (length sub + 1) = sub"
    unfolding is_substring_iff using that by (intro exI [of _ 1]) (simp add: add.commute)
  show ?thesis
    unfolding contains_def stringContains_iff using a b c by blast
qed

text \<open>
  What \<open>dialThroughProxy\<close> tests. Once the upstream proxy has been reached and has
  answered, the connection is returned as established if and only if the bytes of the
  first read of the answer (at most 4096) contain \<open>200\<close> or \<open>201\<close> somewhere; otherwise
  the connection to the upstream is closed and the error \<open>proxy rejected connection\<close>
  with the first 200 bytes of the answer is returned.
\<close>

lemma dialThroughProxy_first_read:
  assumes "url_Parse io = Inr u" and "proxy_dial io = None" and "proxy_write io = None"
    and "proxy_read io = Inr r"
  shows "dialThroughProxy io proxyURL targetHost =
     (let conn = \<lparr>dialled = (if Port u = '''' then JoinHostPort (Hostname u) ''80'' else URL.Host u),
                  sent = ''CONNECT '' @ targetHost @ '' HTTP/1.1'' @ CRLF
                         @ ''Host: '' @ targetHost @ CRLF @ CRLF,
                  conn_closed = False\<rparr>
      in if is_substring ''200'' (take 4096 r) \<or> is_substring ''201'' (take 4096 r)
         then (Inr conn, Some conn)
         else (Inl (''proxy rejected connection: '' @ take 200 (take 4096 r)),
               Some (conn\<lparr>conn_closed := True\<rparr>)))"
  using assms
  by (simp add: dialThroughProxy_def Let_def contains_iff slice_def CRLF_def min_def)

text \<open>
  An answer \<open>204 No Content\<close> holds neither substring: it is refused, with the connection
  closed, although its status is 2xx.
\<close>

lemma dialThroughProxy_refuses_204:
  "spec_is_2xx resp_204
   \<and> dialThroughProxy (upstream_answers resp_204) ''http://10.0.0.1:3128'' ''example.com:443'' =
     (Inl (''proxy rejected connection: '' @ resp_204),
      Some \<lparr>dialled = ''10.0.0.1:3128'',
            sent = ''CONNECT example.com:443 HTTP/1.1'' @ CRLF
                   @ ''Host: example.com:443'' @ CRLF @ CRLF,
            conn_closed = True\<rparr>)"
proof -
  have no200: "\<not> is_substring ''200'' (take 4096 resp_204)"
    unfolding contains_iff [symmetric] by code_simp
  have no201: "\<not> is_substring ''201'' (take 4096 resp_204)"
    unfolding contains_iff [symmetric] by code_simp
  have short: "take 200 (take 4096 resp_204) = resp_204"
    by (simp add: resp_204_def CRLF_def)
  have e: "spec_is_2xx resp_204"
    by code_simp
  show ?thesis
    using dialThroughProxy_first_read
            [of "upstream_answers resp_204"
                "\<lparr>URL.Host = ''10.0.0.1:3128'', Port = ''3128'', Hostname = ''10.0.0.1''\<rparr>"
                resp_204 "''http://10.0.0.1:3128''" "''example.com:443''"]
          no200 no201 short e
    by (simp add: upstream_answers_def Let_def)
qed

text \<open>
  Claim C4. The tunnel through the upstream proxy is to count as established only when
  the status line of the upstream's answer holds \<open>200\<close> or \<open>201\<close>, and every other
  answer is to close the connection and give an error. The code does not do this for
  the upstream that refuses with \<open>403 Forbidden\<close> and a header \<open>Content-Length: 200\<close>:
  the status line holds neither \<open>200\<close> nor \<open>201\<close> and the status is not 2xx, yet
  \<open>dialThroughProxy\<close> finds \<open>200\<close> in the header, returns the connection open and
  without error, and \<open>handleConnect\<close> tells the client
  \<open>200 Connection Established\<close> and relays on the refused connection.
\<close>

theorem upstream_refusal_accepted:
  "\<not> is_substring ''200'' (spec_status_line resp_403_length_200)
   \<and> \<not> is_substring ''201'' (spec_status_line resp_403_length_200)
   \<and> \<not> spec_is_2xx resp_403_length_200
   \<and> dialThroughProxy (upstream_answers resp_403_length_200)
        ''http://10.0.0.1:3128'' ''example.com:443'' =
       (Inr \<lparr>dialled = ''10.0.0.1:3128'',
              sent = ''CONNECT example.com:443 HTTP/1.1'' @ CRLF
                     @ ''Host: example.com:443'' @ CRLF @ CRLF,
              conn_closed = False\<rparr>,
        Some \<lparr>dialled = ''10.0.0.1:3128'',
              sent = ''CONNECT example.com:443 HTTP/1.1'' @ CRLF
                     @ ''Host: example.com:443'' @ CRLF @ CRLF,
              conn_closed = False\<rparr>)
   \<and> dial_target upstream_server refusing_upstream (Request.Host connect_request) = None
   \<and> status (fst (handleConnect upstream_server refusing_upstream connect_request)) = None
   \<and> hijacked (fst (handleConnect upstream_server refusing_upstream connect_request))
   \<and> raw_to_client (fst (handleConnect upstream_server refusing_upstream connect_request)) =
       ''HTTP/1.1 200 Connection Established'' @ CRLF @ CRLF
   \<and> relayed (fst (handleConnect upstream_server refusing_upstream connect_request)) \<noteq> None"
proof -
  have a: "\<not> is_substring ''200'' (spec_status_line resp_403_length_200)"
    unfolding contains_iff [symmetric] by code_simp
  have b: "\<not> is_substring ''201'' (spec_status_line resp_403_length_200)"
    unfolding contains_iff [symmetric] by code_simp
  have c: "\<not> spec_is_2xx resp_403_length_200"
    by code_simp
  have d: "dialThroughProxy (upstream_answers resp_403_length_200)
        ''http://10.0.0.1:3128'' ''example.com:443'' =
       (Inr \<lparr>dialled = ''10.0.0.1:3128'',
              sent = ''CONNECT example.com:443 HTTP/1.1'' @ CRLF
                     @ ''Host: example.com:443'' @ CRLF @ CRLF,
              conn_closed = False\<rparr>,
        Some \<lparr>dialled = ''10.0.0.1:3128'',
              sent = ''CONNECT example.com:443 HTTP/1.1'' @ CRLF
                     @ ''Host: example.com:443'' @ CRLF @ CRLF,
              conn_closed = False\<rparr>)"
    by code_simp
  have e: "dial_target upstream_server refusing_upstream (Request.Host connect_request) = None"
    by code_simp
  have f: "status (fst (handleConnect upstream_server refusing_upstream connect_request)) = None"
    by code_simp
  have g: "hijacked (fst (handleConnect upstream_server refusing_upstream connect_request))"
    by code_simp
  have h: "raw_to_client (fst (handleConnect upstream_server refusing_upstream connect_request)) =
       ''HTTP/1.1 200 Connection Established'' @ CRLF @ CRLF"
    by code_simp
  have i: "relayed (fst (handleConnect upstream_server refusing_upstream connect_request)) \<noteq> None"
    by code_simp
  from a b c d e f g h i show ?thesis by blast
qed














lemma how_blocked:
  "run_pair n
     ((client_done_pair d)\<lparr>pending := (\<lambda>c. []),
        delivered := (\<lambda>c. if c = TargetSide then d else [])\<rparr>)
     [] [Copy ClientSide TargetSide] =
   ((client_done_pair d)\<lparr>pending := (\<lambda>c. []),
        delivered := (\<lambda>c. if c = TargetSide then d else [])\<rparr>,
    [], [Copy ClientSide TargetSide])"
proof (induction n)
  case 0
  show ?case by simp
next
  case (Suc n)
  let ?st = "(client_done_pair d)\<lparr>pending := (\<lambda>c. []),
        delivered := (\<lambda>c. if c = TargetSide then d else [])\<rparr>"
  have a: "step_task ?st [Copy ClientSide TargetSide] = (?st, [Copy ClientSide TargetSide])"
    by (simp add: client_done_pair_def fun_eq_iff)
  have b: "peers_react ?st = ?st"
    by (simp add: peers_react_def client_done_pair_def)
  show ?case using Suc a b by simp
qed

lemma tunnel_first_round:
  "run_pair (Suc n) (client_done_pair d) [Copy TargetSide ClientSide] [Copy ClientSide TargetSide]
     = run_pair n ((client_done_pair d)\<lparr>pending := (\<lambda>c. []),
        delivered := (\<lambda>c. if c = TargetSide then d else [])\<rparr>) [] [Copy ClientSide TargetSide]"
proof -
  have "peers_react ((client_done_pair d)
          \<lparr>delivered := ((\<lambda>c. [])(TargetSide := d))(ClientSide := []),
           pending := ((\<lambda>c. if c = ClientSide then d else [])(ClientSide := []))(TargetSide := [])\<rparr>)
        = (client_done_pair d)\<lparr>pending := (\<lambda>c. []),
            delivered := (\<lambda>c. if c = TargetSide then d else [])\<rparr>"
    by (simp add: peers_react_def client_done_pair_def fun_eq_iff)
  then show ?thesis
    by (simp add: client_done_pair_def)
qed

lemma tunnel_run:
  "run_pair n (client_done_pair d) [Copy TargetSide ClientSide] [Copy ClientSide TargetSide] =
     (if n = 0 then (client_done_pair d, [Copy TargetSide ClientSide], [Copy ClientSide TargetSide])
      else ((client_done_pair d)\<lparr>pending := (\<lambda>c. []),
              delivered := (\<lambda>c. if c = TargetSide then d else [])\<rparr>,
            [], [Copy ClientSide TargetSide]))"
proof (cases n)
  case 0
  then show ?thesis by simp
next
  case (Suc m)
  then show ?thesis
    using tunnel_first_round [of m d] how_blocked [of m d] by simp
qed

text \<open>
  Claim C1. The CONNECT handler's pair is half-closed after each copy, and when the
  client-side peer finishes sending, the relay closes the write side of the target
  connection, the target peer finishes in turn, and the relay returns with both
  connections closed; either relay returns exactly when both goroutines have run to
  their end. The tunnel's pair (\<open>handleRemoteConnection\<close>) has no
  \<open>CloseWrite\<close> after its copies: in the same situation the write side of the local
  connection is never closed, the relay never returns, and the local connection stays
  open, however many rounds are run.
\<close>

theorem tunnel_relay_lacks_half_close:
  "\<not> half_closes (fst handleRemoteConnection_tasks)
   \<and> \<not> half_closes (snd handleRemoteConnection_tasks)
   \<and> \<not> fst (relay n handleRemoteConnection_tasks (client_done_pair d))
   \<and> \<not> write_closed (snd (relay n handleRemoteConnection_tasks (client_done_pair d))) TargetSide
   \<and> \<not> closed (snd (relay n handleRemoteConnection_tasks (client_done_pair d))) TargetSide
   \<and> half_closes (fst handleConnect_tasks)
   \<and> half_closes (snd handleConnect_tasks)
   \<and> fst (relay 4 handleConnect_tasks (client_done_pair d))
   \<and> write_closed (snd (relay 4 handleConnect_tasks (client_done_pair d))) TargetSide
   \<and> closed (snd (relay 4 handleConnect_tasks (client_done_pair d))) TargetSide
   \<and> delivered (snd (relay 4 handleConnect_tasks (client_done_pair d))) TargetSide = d
   \<and> fst (relay m tasks st) =
       (fst (snd (run_pair m st (fst tasks) (snd tasks))) = []
        \<and> snd (snd (run_pair m st (fst tasks) (snd tasks))) = [])"
proof -
  have w: "fst (relay m tasks st) =
       (fst (snd (run_pair m st (fst tasks) (snd tasks))) = []
        \<and> snd (snd (run_pair m st (fst tasks) (snd tasks))) = [])"
    by (simp add: relay_def split_beta)
  have a: "\<not> half_closes (fst handleRemoteConnection_tasks)
      \<and> \<not> half_closes (snd handleRemoteConnection_tasks)
      \<and> half_closes (fst handleConnect_tasks) \<and> half_closes (snd handleConnect_tasks)"
    by (simp add: handleRemoteConnection_tasks_def handleConnect_tasks_def)
  have b: "\<not> fst (relay n handleRemoteConnection_tasks (client_done_pair d))
   \<and> \<not> write_closed (snd (relay n handleRemoteConnection_tasks (client_done_pair d))) TargetSide
   \<and> \<not> closed (snd (relay n handleRemoteConnection_tasks (client_done_pair d))) TargetSide"
    by (simp add: relay_def handleRemoteConnection_tasks_def tunnel_run)
       (simp add: client_done_pair_def)
  have c: "fst (relay 4 handleConnect_tasks (client_done_pair d))
   \<and> write_closed (snd (relay 4 handleConnect_tasks (client_done_pair d))) TargetSide
   \<and> closed (snd (relay 4 handleConnect_tasks (client_done_pair d))) TargetSide
   \<and> delivered (snd (relay 4 handleConnect_tasks (client_done_pair d))) TargetSide = d"
    by (simp add: relay_def handleConnect_tasks_def client_done_pair_def peers_react_def
          eval_nat_numeral)
  from a b c w show ?thesis by blast
qed

section \<open>Proofs: the tunnel manager\<close>

lemmas run_defs = quiet_round_def listening_attempt_def stopped_in_accept_def watched_world_def
  connect_def connect_from_def buildAuthMethods_def bare_auth_def NewSSHTunnel_def
  remote_config_def zero_Config_def trySSHAgent_def getDefaultKeyPaths_def Let_def fmt_d_def
  apply_async_def no_async_def stop_now_def select_poll_def select_wait_def Stop_def
  close_client_def close_listener_def refused_attempt_def listening_world_def
  cancelled_in_accept_def cancel_now_def

lemma Stop_first:
  assumes "\<not> stopChan_closed (tunnel w)"
  shows "Stop w =
     Normal (w\<lparr>tunnel := (tunnel w)\<lparr>reconnect := False, stopChan_closed := True\<rparr>,
               closed_handles := closed_handles w \<union> set_option (listener (tunnel w))
                                 \<union> set_option (client (tunnel w))\<rparr>)"
  using assms
  by (cases "listener (tunnel w)"; cases "client (tunnel w)")
     (simp_all add: Stop_def Let_def insert_commute)

lemma App_step_not_stopped:
  assumes "not_stopped a"
  shows "\<exists>a1. App_step op1 a = Normal a1 \<and> not_stopped a1"
proof (cases op1)
  case (OpStart cfg)
  show ?thesis
  proof (cases a)
    case None
    then show ?thesis
      using OpStart
      by (simp add: App_Start_tunnel_def not_stopped_def started_world_def NewSSHTunnel_def)
  next
    case (Some w)
    then have "\<not> stopChan_closed (tunnel (w\<lparr>ctx_done := True\<rparr>))"
      using assms by (simp add: not_stopped_def)
    from Stop_first [OF this] show ?thesis
      using OpStart Some
      by (simp add: App_Start_tunnel_def not_stopped_def started_world_def NewSSHTunnel_def)
  qed
next
  case OpStop
  show ?thesis
  proof (cases a)
    case None
    then show ?thesis
      using OpStop by (simp add: App_Stop_tunnel_def not_stopped_def)
  next
    case (Some w)
    then have "\<not> stopChan_closed (tunnel (w\<lparr>ctx_done := True\<rparr>))"
      using assms by (simp add: not_stopped_def)
    from Stop_first [OF this] show ?thesis
      using OpStop Some by (simp add: App_Stop_tunnel_def not_stopped_def)
  qed
next
  case (OpSession c l)
  then show ?thesis
    using assms by (cases a) (simp_all add: not_stopped_def)
qed

lemma App_run_not_stopped:
  "not_stopped a \<Longrightarrow> \<exists>a1. App_run ops a = Normal a1 \<and> not_stopped a1"
proof (induction ops arbitrary: a)
  case Nil
  then show ?case by simp
next
  case (Cons op1 ops)
  from App_step_not_stopped [OF Cons.prems, of op1]
  obtain a1 where s: "App_step op1 a = Normal a1" and n: "not_stopped a1" by blast
  from Cons.IH [OF n] show ?case
    using s by simp
qed

text \<open>
  Claim C2, as amended. \<open>Stop\<close> is safe once: on every tunnel that has not been
  stopped, with or without a live session, it returns, having turned reconnection off,
  closed the stop channel and closed the listener and the client that are there; after
  it every \<open>select\<close> on the stop channel has a ready case (the poll of the accept loop,
  the backoff of \<open>Start\<close>, the wait of the keepalive goroutine) and an \<open>Accept\<close> that
  was pending returns, \<open>connect\<close> returning nil. \<open>Stop\<close> is not idempotent: a second
  call on the same tunnel panics at \<open>close(t.stopChan)\<close>. The application makes no such
  call: in every history of \<open>App.Start\<close> and \<open>App.Stop\<close> each tunnel is stopped at most
  once, and no call panics.
\<close>

theorem Stop_safe_once:
  assumes "\<not> stopChan_closed (tunnel w)"
  shows "(let w1 = w\<lparr>tunnel := (tunnel w)\<lparr>reconnect := False, stopChan_closed := True\<rparr>,
                    closed_handles := closed_handles w \<union> set_option (listener (tunnel w))
                                      \<union> set_option (client (tunnel w))\<rparr>
          in Stop w = Normal w1
           \<and> select_poll tie w1 \<noteq> SelDefault
           \<and> select_wait tie w1 \<noteq> TimerFired
           \<and> select_keepalive tick_ready pick w1 \<noteq> None
           \<and> (\<not> ctx_done w \<longrightarrow>
                accept_loop [\<lparr>before_poll = no_async, poll_tie = tie, during_accept = stop_now,
                              accept_result = StillBlocked\<rparr>] w = (Some None, [], w1))
           \<and> Stop w1 = Panic ''close of closed channel'')
     \<and> (\<exists>a1. App_run ops (Some w) = Normal a1 \<and> not_stopped a1)"
proof -
  let ?w1 = "w\<lparr>tunnel := (tunnel w)\<lparr>reconnect := False, stopChan_closed := True\<rparr>,
                closed_handles := closed_handles w \<union> set_option (listener (tunnel w))
                                  \<union> set_option (client (tunnel w))\<rparr>"
  note first = Stop_first [OF assms]
  have poll: "select_poll tie ?w1 \<noteq> SelDefault"
    by (simp add: select_poll_def)
  have wait: "select_wait tie ?w1 \<noteq> TimerFired"
    by (simp add: select_wait_def)
  have ka: "select_keepalive tick_ready pick ?w1 \<noteq> None"
    by (simp add: select_keepalive_def Let_def)
  have acc: "\<not> ctx_done w \<longrightarrow>
      accept_loop [\<lparr>before_poll = no_async, poll_tie = tie, during_accept = stop_now,
                    accept_result = StillBlocked\<rparr>] w = (Some None, [], ?w1)"
  proof
    assume c: "\<not> ctx_done w"
    then have e: "w\<lparr>ctx_done := False\<rparr> = w"
      by (cases w) simp
    have p: "apply_async no_async w = w"
      using c by (simp add: apply_async_def no_async_def Let_def e)
    have q: "apply_async stop_now w = ?w1"
      using c assms by (simp add: apply_async_def stop_now_def Let_def e first)
    have d: "select_poll tie w = SelDefault"
      using c assms by (simp add: select_poll_def)
    show "accept_loop [\<lparr>before_poll = no_async, poll_tie = tie, during_accept = stop_now,
                    accept_result = StillBlocked\<rparr>] w = (Some None, [], ?w1)"
      by (simp add: p q d Let_def)
  qed
  have second: "Stop ?w1 = Panic ''close of closed channel''"
    by (simp add: Stop_def Let_def)
  have app: "\<exists>a1. App_run ops (Some w) = Normal a1 \<and> not_stopped a1"
    using App_run_not_stopped [of "Some w" ops] assms by (simp add: not_stopped_def)
  from first poll wait ka acc second app show ?thesis
    by (simp add: Let_def)
qed

theorem Stop_safe_once_witness:
  "Stop (new_world remote_config (Some 1) (Some 2)) =
     Normal \<lparr>tunnel = (NewSSHTunnel remote_config)
                \<lparr>client := Some 1, listener := Some 2, stopChan_closed := True,
                 reconnect := False\<rparr>,
             ctx_done = False, closed_handles = {1, 2}\<rparr>
   \<and> accept_loop [\<lparr>before_poll = no_async, poll_tie = False, during_accept = stop_now,
                   accept_result = StillBlocked\<rparr>] (new_world remote_config (Some 1) (Some 2)) =
       (Some None, [],
        \<lparr>tunnel = (NewSSHTunnel remote_config)
                \<lparr>client := Some 1, listener := Some 2, stopChan_closed := True,
                 reconnect := False\<rparr>,
         ctx_done = False, closed_handles = {1, 2}\<rparr>)
   \<and> App_run [OpStop, OpStop, OpStart remote_config, OpSession (Some 3) (Some 4),
               OpStart remote_config, OpStop]
        (Some (new_world remote_config (Some 1) (Some 2))) = Normal None"
proof -
  have n: "\<not> stopChan_closed (tunnel (new_world remote_config (Some 1) (Some 2)))"
    by (simp add: new_world_def NewSSHTunnel_def)
  have r: "App_run [OpStop, OpStop, OpStart remote_config, OpSession (Some 3) (Some 4),
               OpStart remote_config, OpStop]
        (Some (new_world remote_config (Some 1) (Some 2))) = Normal None"
    by (simp add: App_Stop_tunnel_def App_Start_tunnel_def started_world_def new_world_def
          NewSSHTunnel_def Stop_def Let_def)
  show ?thesis
    using Stop_safe_once [OF n, where tie = False and tick_ready = False and pick = 0
        and ops = "[]"] r
    by (simp add: Let_def new_world_def NewSSHTunnel_def insert_commute)
qed

text \<open>
  The claim as stated fails at the second call: on a tunnel with a live session the
  first \<open>Stop\<close> returns and the second panics.
\<close>

theorem Stop_not_idempotent_counterexample:
  "Stop (new_world remote_config (Some 1) (Some 2)) =
     Normal \<lparr>tunnel = (NewSSHTunnel remote_config)
                \<lparr>client := Some 1, listener := Some 2, stopChan_closed := True,
                 reconnect := False\<rparr>,
             ctx_done = False, closed_handles = {1, 2}\<rparr>
   \<and> Stop_twice (new_world remote_config (Some 1) (Some 2)) = Panic ''close of closed channel''
   \<and> Stop_twice (new_world remote_config None None) = Panic ''close of closed channel''"
  by (simp add: Stop_twice_def Stop_def new_world_def NewSSHTunnel_def Let_def insert_commute)

lemma buildAuthMethods_snoc:
  "\<exists>ms. buildAuthMethods env t = ms @ [KeyboardInteractive]"
  by (simp add: buildAuthMethods_def Let_def)

lemma buildAuthMethods_resolved:
  "buildAuthMethods env t = resolved_methods env t @ [KeyboardInteractive]"
  using buildAuthMethods_snoc [of env t] by (auto simp: resolved_methods_def)

lemma buildAuthMethods_nonempty: "buildAuthMethods env t \<noteq> []"
  using buildAuthMethods_snoc [of env t] by auto

lemma accept_loop_no_auth_error:
  "fst (accept_loop obs w) \<noteq> Some (Some NoAuthMethods)"
proof (induction obs arbitrary: w)
  case Nil
  show ?case by simp
next
  case (Cons ob obs)
  show ?case
  proof (cases "select_poll (poll_tie ob) (apply_async (before_poll ob) w)")
    case SelCtxDone
    then show ?thesis by (simp add: Let_def)
  next
    case SelStop
    then show ?thesis by (simp add: Let_def)
  next
    case SelDefault
    show ?thesis
    proof (cases "accept_result ob")
      case Accepted
      then show ?thesis
        using SelDefault
          Cons.IH [of "apply_async (during_accept ob) (apply_async (before_poll ob) w)"]
        by (simp add: Let_def split_beta)
    next
      case (AcceptErr e)
      then show ?thesis using SelDefault by (simp add: Let_def)
    next
      case StillBlocked
      then show ?thesis using SelDefault by (simp add: Let_def)
    qed
  qed
qed

lemma connect_from_no_auth_error:
  "ms \<noteq> [] \<Longrightarrow> fst (connect_from ms a w) \<noteq> Some (Some NoAuthMethods)"
  using accept_loop_no_auth_error
  by (auto simp: connect_from_def Let_def split_beta split: option.splits if_splits)

lemma connect_from_first_event:
  "ms \<noteq> [] \<Longrightarrow>
   \<exists>rest. fst (snd (connect_from ms a w)) =
     EvDial (SSHHost (config (tunnel w)) @ '':'' @ fmt_d (SSHPort (config (tunnel w)))) ms # rest"
  by (auto simp: connect_from_def Let_def split_beta split: option.splits if_splits)

text \<open>
  Claim C3, as amended. When the list of authentication methods is empty \<open>connect\<close>
  returns \<open>no authentication methods available\<close> before any dial; but
  \<open>buildAuthMethods\<close> always ends its list with the keyboard-interactive method, so the
  list is never empty and \<open>connect\<close> never returns that error: when no agent, key
  file or password resolves, the attempt goes on to dial the SSH server and offers the
  keyboard-interactive method alone.
\<close>

theorem keyboard_interactive_always_offered:
  "connect_from [] a w = (Some (Some NoAuthMethods), [], w)
   \<and> buildAuthMethods env t = resolved_methods env t @ [KeyboardInteractive]
   \<and> buildAuthMethods env t \<noteq> []
   \<and> fst (connect a w) \<noteq> Some (Some NoAuthMethods)
   \<and> (resolved_methods (auth a) (tunnel w) = [] \<longrightarrow>
        (\<exists>rest. fst (snd (connect a w)) =
           EvDial (SSHHost (config (tunnel w)) @ '':'' @ fmt_d (SSHPort (config (tunnel w))))
             [KeyboardInteractive] # rest))"
proof -
  have a: "connect_from [] a w = (Some (Some NoAuthMethods), [], w)"
    by (simp add: connect_from_def)
  have d: "fst (connect a w) \<noteq> Some (Some NoAuthMethods)"
    unfolding connect_def
    by (rule connect_from_no_auth_error) (rule buildAuthMethods_nonempty)
  have e: "resolved_methods (auth a) (tunnel w) = [] \<longrightarrow>
        (\<exists>rest. fst (snd (connect a w)) =
           EvDial (SSHHost (config (tunnel w)) @ '':'' @ fmt_d (SSHPort (config (tunnel w))))
             [KeyboardInteractive] # rest)"
    using connect_from_first_event [of "[KeyboardInteractive]" a w]
    by (simp add: connect_def buildAuthMethods_resolved)
  from a d e buildAuthMethods_resolved [of env t] buildAuthMethods_nonempty [of env t]
  show ?thesis by blast
qed

lemma bare_resolved: "resolved_methods bare_auth (tunnel watched_world) = []"
  by (simp add: resolved_methods_def buildAuthMethods_def bare_auth_def watched_world_def
        NewSSHTunnel_def remote_config_def zero_Config_def trySSHAgent_def
        getDefaultKeyPaths_def Let_def)

lemma refused_connect:
  "connect refused_attempt watched_world =
     (Some (Some (DialFailed ''ssh: handshake failed: unable to authenticate'')),
      [EvDial ''b.example:22'' [KeyboardInteractive]], watched_world)"
  using bare_resolved
  by (simp add: connect_def buildAuthMethods_resolved refused_attempt_def)
     (simp add: connect_from_def watched_world_def NewSSHTunnel_def remote_config_def
        zero_Config_def Let_def fmt_d_def)

theorem keyboard_interactive_always_offered_witness:
  "resolved_methods (auth refused_attempt) (tunnel watched_world) = []
   \<and> hd (fst (snd (connect refused_attempt watched_world))) =
       EvDial ''b.example:22'' [KeyboardInteractive]"
  using keyboard_interactive_always_offered [of refused_attempt watched_world] bare_resolved
        refused_connect
  by (simp add: refused_attempt_def)

text \<open>
  The claim as stated fails on a machine with no agent, no key file and no password:
  nothing resolves, and \<open>connect\<close> dials and returns the dial's error.
\<close>

theorem no_methods_still_dials_counterexample:
  "resolved_methods (auth refused_attempt) (tunnel watched_world) = []
   \<and> connect refused_attempt watched_world =
       (Some (Some (DialFailed ''ssh: handshake failed: unable to authenticate'')),
        [EvDial ''b.example:22'' [KeyboardInteractive]], watched_world)"
  using bare_resolved refused_connect by (simp add: refused_attempt_def)

lemma cb_Stop: "Stop w = Normal w' \<Longrightarrow> OnStatusChange_set (tunnel w') = OnStatusChange_set (tunnel w)"
  by (auto simp: Stop_def Let_def split: if_splits)

lemma cb_apply_async:
  "OnStatusChange_set (tunnel (apply_async a w)) = OnStatusChange_set (tunnel w)"
proof -
  have "OnStatusChange_set (tunnel w2) = OnStatusChange_set (tunnel w)"
    if "Stop (w\<lparr>ctx_done := ctx_done w \<or> cancel_seen a\<rparr>) = Normal w2" for w2
    using cb_Stop [OF that] by simp
  then show ?thesis
    by (simp add: apply_async_def Let_def split: go_result.splits)
qed

lemma cb_accept_loop:
  "OnStatusChange_set (tunnel (snd (snd (accept_loop obs w)))) = OnStatusChange_set (tunnel w)"
proof (induction obs arbitrary: w)
  case Nil
  show ?case by simp
next
  case (Cons ob obs)
  show ?case
    using Cons.IH [of "apply_async (during_accept ob) (apply_async (before_poll ob) w)"]
    by (simp add: Let_def split_beta cb_apply_async
          split: selected.splits accept_outcome.splits)
qed

lemma cb_connect_from:
  "OnStatusChange_set (tunnel (snd (snd (connect_from ms a w)))) = OnStatusChange_set (tunnel w)"
  by (simp add: connect_from_def Let_def split_beta cb_accept_loop close_client_def
        close_listener_def split: option.splits)

lemma status_chain_append:
  "status_chain p (xs @ ys) = (status_chain p xs \<and> status_chain (last_event p xs) ys)"
  by (induction xs arbitrary: p) auto

lemma last_event_append: "last_event p (xs @ ys) = last_event (last_event p xs) ys"
  by (induction xs arbitrary: p) auto

lemma plain_step: "plain ev \<Longrightarrow> \<not> owes_status p \<Longrightarrow> status_ok p ev \<and> \<not> owes_status (Some ev)"
  by (cases ev rule: plain.cases)
     (auto simp: owes_status_def split: option.splits event.splits)

lemma plain_chain:
  "list_all plain evs \<Longrightarrow> \<not> owes_status p \<Longrightarrow>
   status_chain p evs \<and> \<not> owes_status (last_event p evs)"
proof (induction evs arbitrary: p)
  case Nil
  then show ?case by simp
next
  case (Cons ev evs)
  then have "status_ok p ev \<and> \<not> owes_status (Some ev)"
    using plain_step [of ev p] by simp
  then show ?case using Cons by simp
qed

lemma accept_loop_plain: "list_all plain (fst (snd (accept_loop obs w)))"
proof (induction obs arbitrary: w)
  case Nil
  show ?case by simp
next
  case (Cons ob obs)
  show ?case
    using Cons.IH [of "apply_async (during_accept ob) (apply_async (before_poll ob) w)"]
    by (simp add: Let_def split_beta split: selected.splits accept_outcome.splits)
qed

lemma not_owes_cases:
  "\<not> owes_status p \<Longrightarrow> plain ev \<Longrightarrow> status_ok p ev"
  using plain_step by blast

lemma chain_after_plain:
  assumes "list_all plain d" and "\<not> owes_status p"
  shows "status_chain p (d @ ys) = status_chain (last_event p d) ys"
    and "\<not> owes_status (last_event p d)"
  using plain_chain [OF assms] by (simp_all add: status_chain_append)

lemma chain_listening:
  assumes "\<not> owes_status p" and "list_all plain acc"
  shows "status_chain p ([EvListenerUp h, EvStatus True None, EvGoKeepalive] @ acc)
     \<and> \<not> owes_status (last_event p ([EvListenerUp h, EvStatus True None, EvGoKeepalive] @ acc))"
proof -
  have a: "status_ok p (EvListenerUp h)"
    using assms(1) by (auto simp: owes_status_def split: option.splits event.splits)
  have b: "\<not> owes_status (Some EvGoKeepalive)"
    by (simp add: owes_status_def)
  from plain_chain [OF assms(2) b] a show ?thesis
    by simp
qed

lemma connect_from_chain:
  assumes cb: "OnStatusChange_set (tunnel w)" and p: "\<not> owes_status p"
  shows "status_chain p (fst (snd (connect_from ms a w)))
     \<and> \<not> owes_status (last_event p (fst (snd (connect_from ms a w))))"
proof (cases "ms = []")
  case True
  then show ?thesis using p by (simp add: connect_from_def)
next
  case False
  let ?t = "tunnel w"
  let ?cfg = "config ?t"
  let ?addr = "SSHHost ?cfg @ '':'' @ fmt_d (SSHPort ?cfg)"
  let ?prompted = "SSHPassword ?cfg = '''' \<and> PasswordPrompt_set ?t"
  let ?pw = "prompt_answer a"
  define d where "d =
     (case dial_result a ms of
        None \<Rightarrow> [EvDial ?addr ms]
      | Some e \<Rightarrow> if ?prompted
                  then [EvDial ?addr ms, EvPasswordPrompt, EvDial ?addr [Password ?pw]]
                  else [EvDial ?addr ms])"
  have dplain: "list_all plain d"
    by (simp add: d_def split: option.splits)
  have shape:
    "fst (snd (connect_from ms a w)) = d
     \<or> (\<exists>l. fst (snd (connect_from ms a w)) = d @ [EvHandshake (client_handle a), EvListen l])
     \<or> (\<exists>l w3. fst (snd (connect_from ms a w)) =
           (d @ [EvHandshake (client_handle a), EvListen l])
           @ [EvListenerUp (listener_handle a), EvStatus True None, EvGoKeepalive]
           @ fst (snd (accept_loop (accepts a) w3)))"
    using False cb
    by (auto simp: connect_from_def d_def Let_def split_beta split: option.splits)
  from shape show ?thesis
  proof (elim disjE exE)
    assume "fst (snd (connect_from ms a w)) = d"
    then show ?thesis using plain_chain [OF dplain p] by simp
  next
    fix l
    assume e: "fst (snd (connect_from ms a w)) = d @ [EvHandshake (client_handle a), EvListen l]"
    have "list_all plain (d @ [EvHandshake (client_handle a), EvListen l])"
      using dplain by simp
    from plain_chain [OF this p] show ?thesis using e by simp
  next
    fix l w3
    assume e: "fst (snd (connect_from ms a w)) =
           (d @ [EvHandshake (client_handle a), EvListen l])
           @ [EvListenerUp (listener_handle a), EvStatus True None, EvGoKeepalive]
           @ fst (snd (accept_loop (accepts a) w3))"
    have pl: "list_all plain (d @ [EvHandshake (client_handle a), EvListen l])"
      using dplain by simp
    note c = chain_after_plain [OF pl p]
    have l: "last_event p ((d @ [EvHandshake (client_handle a), EvListen l])
           @ [EvListenerUp (listener_handle a), EvStatus True None, EvGoKeepalive]
           @ fst (snd (accept_loop (accepts a) w3))) =
        last_event (last_event p (d @ [EvHandshake (client_handle a), EvListen l]))
          ([EvListenerUp (listener_handle a), EvStatus True None, EvGoKeepalive]
           @ fst (snd (accept_loop (accepts a) w3)))"
      by (rule last_event_append)
    show ?thesis
      unfolding e l c(1)
      by (rule chain_listening [OF c(2) accept_loop_plain])
  qed
qed

lemma Start_at_check:
  assumes "select_poll (check_tie it) (apply_async (at_check it) w) \<noteq> SelDefault"
  shows "Start (it # rest) w =
     ((if select_poll (check_tie it) (apply_async (at_check it) w) = SelCtxDone
       then Returned (Some ContextCanceled) else Returned None),
      [], apply_async (at_check it) w)"
  using assms by (simp add: Let_def split: selected.splits)

lemma Start_blocked:
  assumes "select_poll (check_tie it) (apply_async (at_check it) w) = SelDefault"
    and "connect (attempt_env it) (apply_async (at_check it) w) = (None, evs, w2)"
  shows "Start (it # rest) w = (Running, evs, w2)"
  using assms by (simp add: Let_def)

lemma Start_after_connect:
  assumes "select_poll (check_tie it) (apply_async (at_check it) w) = SelDefault"
    and "connect (attempt_env it) (apply_async (at_check it) w) = (Some err, evs, w2)"
  shows "Start (it # rest) w =
     (let evs1 = evs @ failure_report (OnStatusChange_set (tunnel w2)) err;
          w3 = apply_async (before_reconnect_read it) w2;
          w4 = apply_async (during_wait it) w3
      in if \<not> reconnect (tunnel w3) then (Returned err, evs1, w3)
         else if select_wait (wait_tie it) w4 = TimerFired
         then (fst (Start rest w4), evs1 @ [EvSleep 5] @ fst (snd (Start rest w4)),
               snd (snd (Start rest w4)))
         else ((if select_wait (wait_tie it) w4 = WaitCtxDone
                then Returned (Some ContextCanceled) else Returned None), evs1, w4))"
  using assms
  by (simp add: Let_def failure_report_def split_beta split: waited.splits option.splits)

lemma failure_report_chain:
  assumes "\<not> owes_status q"
  shows "status_chain q (failure_report True err)
     \<and> \<not> owes_status (last_event q (failure_report True err))"
  using assms
  by (cases err) (auto simp: failure_report_def owes_status_def split: option.splits event.splits)

lemma Start_chain:
  "OnStatusChange_set (tunnel w) \<Longrightarrow> \<not> owes_status p \<Longrightarrow>
   status_chain p (fst (snd (Start script w)))
   \<and> \<not> owes_status (last_event p (fst (snd (Start script w))))"
proof (induction script arbitrary: w p)
  case Nil
  then show ?case by simp
next
  case (Cons it rest)
  let ?w1 = "apply_async (at_check it) w"
  have cb1: "OnStatusChange_set (tunnel ?w1)"
    using Cons.prems(1) by (simp add: cb_apply_async)
  show ?case
  proof (cases "select_poll (check_tie it) ?w1 = SelDefault")
    case False
    then show ?thesis
      using Cons.prems(2) Start_at_check [OF False, of rest] by (simp del: Start.simps)
  next
    case True
    obtain r evs w2 where c: "connect (attempt_env it) ?w1 = (r, evs, w2)"
      by (cases "connect (attempt_env it) ?w1") auto
    have ce: "status_chain p evs \<and> \<not> owes_status (last_event p evs)"
      using connect_from_chain [OF cb1 Cons.prems(2),
              of "buildAuthMethods (auth (attempt_env it)) (tunnel ?w1)" "attempt_env it"] c
      by (simp add: connect_def)
    have cb2: "OnStatusChange_set (tunnel w2)"
      using cb_connect_from [of "buildAuthMethods (auth (attempt_env it)) (tunnel ?w1)"
              "attempt_env it" ?w1] c cb1
      by (simp add: connect_def)
    show ?thesis
    proof (cases r)
      case None
      then show ?thesis
        using Start_blocked [OF True, of evs w2 rest] c ce by (simp del: Start.simps)
    next
      case (Some err)
      let ?evs1 = "evs @ failure_report True err"
      let ?w3 = "apply_async (before_reconnect_read it) w2"
      let ?w4 = "apply_async (during_wait it) ?w3"
      have e1: "status_chain p ?evs1 \<and> \<not> owes_status (last_event p ?evs1)"
        using ce failure_report_chain [of "last_event p evs" err]
        by (simp add: status_chain_append last_event_append)
      have cb4: "OnStatusChange_set (tunnel ?w4)"
        using cb2 by (simp add: cb_apply_async)
      have sl: "\<not> owes_status (Some (EvSleep 5))"
        by (simp add: owes_status_def)
      have ok: "status_ok (last_event p ?evs1) (EvSleep 5)"
        using e1 by (intro not_owes_cases) simp_all
      note ih = Cons.IH [OF cb4 sl]
      have e2: "status_chain p (?evs1 @ [EvSleep 5] @ fst (snd (Start rest ?w4)))
         \<and> \<not> owes_status (last_event p (?evs1 @ [EvSleep 5] @ fst (snd (Start rest ?w4))))"
        using e1 ok ih
        by (simp only: status_chain_append last_event_append status_chain.simps
              last_event.simps append.simps) simp
      show ?thesis
        using Start_after_connect [OF True, of err evs w2 rest] c Some cb2 e1 e2
        by (simp add: Let_def del: Start.simps)
    qed
  qed
qed

lemma last_event_eq: "last_event p xs = (if xs = [] then p else Some (last xs))"
  by (induction xs arbitrary: p) auto

lemma last_event_snoc:
  "last_event None pre = Some ev \<Longrightarrow> \<exists>earlier. pre = earlier @ [ev]"
  by (cases "pre = []") (auto simp: last_event_eq intro: exI [of _ "butlast pre"])

lemma chain_status_true:
  "status_chain p (pre @ EvStatus True x # post) \<Longrightarrow>
   x = None \<and> (\<exists>h. last_event p pre = Some (EvListenerUp h))"
  by (auto simp: status_chain_append split: option.splits event.splits)

lemma chain_status_false:
  "status_chain p (pre @ EvStatus False x # post) \<Longrightarrow>
   (\<exists>e. x = Some e) \<and> last_event p pre = Some (EvConnectReturned x)"
  by (auto simp: status_chain_append)

lemma after_listener_up:
  assumes "status_ok (Some (EvListenerUp h)) ev"
  shows "ev = EvStatus True None"
  using assms by (cases "(Some (EvListenerUp h), ev)" rule: status_ok.cases) auto

lemma after_returned:
  assumes "status_ok (Some (EvConnectReturned (Some e))) ev"
  shows "ev = EvStatus False (Some e)"
  using assms by (cases "(Some (EvConnectReturned (Some e)), ev)" rule: status_ok.cases) auto

lemma chain_listener_up:
  assumes "status_chain p (pre @ EvListenerUp h # post)"
    and "\<not> owes_status (last_event p (pre @ EvListenerUp h # post))"
  shows "\<exists>post'. post = EvStatus True None # post'"
proof (cases post)
  case Nil
  then show ?thesis using assms(2) by (simp add: last_event_append owes_status_def)
next
  case (Cons ev post')
  then have "status_ok (Some (EvListenerUp h)) ev"
    using assms(1) by (simp add: status_chain_append)
  then show ?thesis using Cons after_listener_up by blast
qed

lemma chain_returned:
  assumes "status_chain p (pre @ EvConnectReturned (Some e) # post)"
    and "\<not> owes_status (last_event p (pre @ EvConnectReturned (Some e) # post))"
  shows "\<exists>post'. post = EvStatus False (Some e) # post'"
proof (cases post)
  case Nil
  then show ?thesis using assms(2) by (simp add: last_event_append owes_status_def)
next
  case (Cons ev post')
  then have "status_ok (Some (EvConnectReturned (Some e))) ev"
    using assms(1) by (simp add: status_chain_append)
  then show ?thesis using Cons after_returned by blast
qed

text \<open>
  Claim C8, as amended. With a status callback set, in every run of \<open>Start\<close> the
  callback is called at exactly two occasions: with \<open>(true, nil)\<close> directly after the
  remote listener is established, and with \<open>(false, err)\<close> directly after a connect
  attempt returned the error \<open>err\<close>. So \<open>connected=true\<close> is never reported before
  the listener exists, and not after the handshake alone.
\<close>

theorem status_reported_at_listen_and_failure:
  assumes "OnStatusChange_set (tunnel w)"
  shows "status_chain None (fst (snd (Start script w)))
     \<and> \<not> owes_status (last_event None (fst (snd (Start script w))))
     \<and> (fst (snd (Start script w)) = pre @ EvStatus True x # post \<longrightarrow>
          x = None \<and> (\<exists>h earlier. pre = earlier @ [EvListenerUp h]))
     \<and> (fst (snd (Start script w)) = pre @ EvStatus False x # post \<longrightarrow>
          (\<exists>e earlier. x = Some e \<and> pre = earlier @ [EvConnectReturned (Some e)]))
     \<and> (fst (snd (Start script w)) = pre @ EvListenerUp h # post \<longrightarrow>
          (\<exists>post'. post = EvStatus True None # post'))
     \<and> (fst (snd (Start script w)) = pre @ EvConnectReturned (Some e) # post \<longrightarrow>
          (\<exists>post'. post = EvStatus False (Some e) # post'))"
proof -
  have n: "\<not> owes_status None" by (simp add: owes_status_def)
  note c = Start_chain [OF assms n, of script]
  have t: "fst (snd (Start script w)) = pre @ EvStatus True x # post \<longrightarrow>
          x = None \<and> (\<exists>h earlier. pre = earlier @ [EvListenerUp h])"
    using c chain_status_true [of None pre x post] last_event_snoc [of pre] by auto
  have f: "fst (snd (Start script w)) = pre @ EvStatus False x # post \<longrightarrow>
          (\<exists>e earlier. x = Some e \<and> pre = earlier @ [EvConnectReturned (Some e)])"
    using c chain_status_false [of None pre x post] last_event_snoc [of pre] by auto
  have u: "fst (snd (Start script w)) = pre @ EvListenerUp h # post \<longrightarrow>
          (\<exists>post'. post = EvStatus True None # post')"
    using c chain_listener_up [of None pre h post] by auto
  have r: "fst (snd (Start script w)) = pre @ EvConnectReturned (Some e) # post \<longrightarrow>
          (\<exists>post'. post = EvStatus False (Some e) # post')"
    using c chain_returned [of None pre e post] by auto
  from c t f u r show ?thesis by blast
qed

lemma stopped_run:
  "Start [quiet_round (listening_attempt [stopped_in_accept])] watched_world =
     (Returned None,
      [EvDial ''b.example:22'' [KeyboardInteractive], EvHandshake 1,
       EvListen ''127.0.0.1:8080'', EvListenerUp 2, EvStatus True None, EvGoKeepalive,
       EvConnectReturned None],
      watched_world\<lparr>tunnel := (tunnel watched_world)\<lparr>stopChan_closed := True, reconnect := False\<rparr>,
                    closed_handles := {1, 2}\<rparr>)"
  by (simp add: run_defs insert_commute)

theorem status_reported_at_listen_and_failure_witness:
  "OnStatusChange_set (tunnel watched_world)
   \<and> fst (snd (Start [quiet_round (listening_attempt [stopped_in_accept])] watched_world)) =
       [EvDial ''b.example:22'' [KeyboardInteractive], EvHandshake 1,
        EvListen ''127.0.0.1:8080'', EvListenerUp 2, EvStatus True None, EvGoKeepalive,
        EvConnectReturned None]
   \<and> status_chain None
        (fst (snd (Start [quiet_round (listening_attempt [stopped_in_accept])] watched_world)))"
proof -
  have cb: "OnStatusChange_set (tunnel watched_world)"
    by (simp add: watched_world_def)
  show ?thesis
    using status_reported_at_listen_and_failure
            [OF cb, of "[quiet_round (listening_attempt [stopped_in_accept])]"] cb
    unfolding stopped_run by simp
qed

text \<open>
  The claim as stated fails: in a run that is stopped while it waits in \<open>Accept\<close>,
  the tunnel goes from idle to connecting, to listening and to stopped, and the callback
  is called once, with \<open>(true, nil)\<close>; the end of the tunnel is not reported.
\<close>

theorem stop_not_reported_counterexample:
  "fst (Start [quiet_round (listening_attempt [stopped_in_accept])] watched_world) = Returned None
   \<and> status_calls
        (fst (snd (Start [quiet_round (listening_attempt [stopped_in_accept])] watched_world))) =
       [(True, None)]
   \<and> spec_transitions None
        (fst (snd (Start [quiet_round (listening_attempt [stopped_in_accept])] watched_world))) = 3"
  unfolding stopped_run by simp





end
